theory Spec2Isabelle
  imports Main "HOL-Library.Word" "HOL-Library.Signed_Division" "HOL-Library.Stream"
begin

unbundle bit_operations_syntax

section \<open>TinyNTPClient: machine types and the host\<close>

text \<open>
  The class \<^verbatim>\<open>TinyNTPClient<UDPAPI>\<close> of \<^verbatim>\<open>src/TinyNTPClient.h\<close> is embedded
  function by function. Fixed-width C types are words. The C type \<^verbatim>\<open>long\<close> has no
  fixed width: it has 32 bits on the Arduino targets (AVR, ESP32, ARM Cortex-M) and 64
  bits on an LP64 desktop, where the example \<^verbatim>\<open>examples/ntp-desktop\<close> is built. Its
  width is therefore a type parameter \<open>'l\<close>, and a \<^verbatim>\<open>long\<close> is an \<open>'l word\<close> read with
  \<open>sint\<close>.

  The host's byte order, which \<^verbatim>\<open>isLittleEndian()\<close> detects, is the Boolean argument
  \<open>le\<close> of every function that depends on it.
\<close>

type_synonym u8 = "8 word"
type_synonym u32 = "32 word"
type_synonym u64 = "64 word"

text \<open>The constant \<^verbatim>\<open>2208988800UL\<close>: seconds between 1900-01-01 and 1970-01-01.\<close>

definition NTP_EPOCH_DELTA :: nat where
  "NTP_EPOCH_DELTA = 2208988800"

subsection \<open>Byte order\<close>

definition swap32 :: "u32 \<Rightarrow> u32" where
  "swap32 v =
     push_bit 24 (v AND 0x000000FF) OR push_bit 8 (v AND 0x0000FF00) OR
     drop_bit 8 (v AND 0x00FF0000) OR drop_bit 24 (v AND 0xFF000000)"

definition l_htonl :: "bool \<Rightarrow> u32 \<Rightarrow> u32" where
  "l_htonl le hostlong = (if le then swap32 hostlong else hostlong)"

definition l_ntohl :: "bool \<Rightarrow> u32 \<Rightarrow> u32" where
  "l_ntohl le netlong = (if le then swap32 netlong else netlong)"

text \<open>
  The four bytes of a 32-bit value, most significant first, and the value of four
  bytes read most significant first: the network representation.
\<close>

definition be_bytes :: "u32 \<Rightarrow> u8 list" where
  "be_bytes v = [ucast (drop_bit 24 v), ucast (drop_bit 16 v), ucast (drop_bit 8 v), ucast v]"

definition be_word :: "u8 \<Rightarrow> u8 \<Rightarrow> u8 \<Rightarrow> u8 \<Rightarrow> u32" where
  "be_word a b c d =
     push_bit 24 (ucast a) OR push_bit 16 (ucast b) OR push_bit 8 (ucast c) OR ucast d"

text \<open>
  How the host keeps a \<^verbatim>\<open>uint32_t\<close> in memory: \<open>store32\<close> gives the bytes at
  increasing addresses, \<open>load32\<close> reads the four bytes at offset \<open>off\<close> of a buffer.
\<close>

definition store32 :: "bool \<Rightarrow> u32 \<Rightarrow> u8 list" where
  "store32 le v = (if le then rev (be_bytes v) else be_bytes v)"

definition load32 :: "bool \<Rightarrow> u8 list \<Rightarrow> nat \<Rightarrow> u32" where
  "load32 le buf off =
     (if le then be_word (buf ! (off + 3)) (buf ! (off + 2)) (buf ! (off + 1)) (buf ! off)
      else be_word (buf ! off) (buf ! (off + 1)) (buf ! (off + 2)) (buf ! (off + 3)))"

subsection \<open>The packed struct NTPPacket\<close>

record NTPPacket =
  li_vn_mode :: u8
  stratum :: u8
  poll :: u8
  precision :: u8
  rootDelay :: u32
  rootDispersion :: u32
  refId :: u32
  refTm_s :: u32
  refTm_f :: u32
  origTm_s :: u32
  origTm_f :: u32
  rxTm_s :: u32
  rxTm_f :: u32
  txTm_s :: u32
  txTm_f :: u32

text \<open>\<^verbatim>\<open>NTPPacket packet = {}\<close>: every member has the initialiser 0.\<close>

definition NTPPacket_zero :: NTPPacket where
  "NTPPacket_zero =
     \<lparr>li_vn_mode = 0, stratum = 0, poll = 0, precision = 0, rootDelay = 0,
      rootDispersion = 0, refId = 0, refTm_s = 0, refTm_f = 0, origTm_s = 0,
      origTm_f = 0, rxTm_s = 0, rxTm_f = 0, txTm_s = 0, txTm_f = 0\<rparr>"

definition sizeof_NTPPacket :: nat where
  "sizeof_NTPPacket = 48"

text \<open>
  \<^verbatim>\<open>reinterpret_cast<uint8_t*>(&packet)\<close>: the struct is packed, so its object
  representation is the members in declaration order without padding.
\<close>

definition packet_bytes :: "bool \<Rightarrow> NTPPacket \<Rightarrow> u8 list" where
  "packet_bytes le p =
     [li_vn_mode p, stratum p, poll p, precision p] @
     store32 le (rootDelay p) @ store32 le (rootDispersion p) @ store32 le (refId p) @
     store32 le (refTm_s p) @ store32 le (refTm_f p) @
     store32 le (origTm_s p) @ store32 le (origTm_f p) @
     store32 le (rxTm_s p) @ store32 le (rxTm_f p) @
     store32 le (txTm_s p) @ store32 le (txTm_f p)"

text \<open>The struct that a 48-byte buffer is, read through the same cast.\<close>

definition packet_of_bytes :: "bool \<Rightarrow> u8 list \<Rightarrow> NTPPacket" where
  "packet_of_bytes le buf =
     \<lparr>li_vn_mode = buf ! 0, stratum = buf ! 1, poll = buf ! 2, precision = buf ! 3,
      rootDelay = load32 le buf 4, rootDispersion = load32 le buf 8,
      refId = load32 le buf 12, refTm_s = load32 le buf 16, refTm_f = load32 le buf 20,
      origTm_s = load32 le buf 24, origTm_f = load32 le buf 28,
      rxTm_s = load32 le buf 32, rxTm_f = load32 le buf 36,
      txTm_s = load32 le buf 40, txTm_f = load32 le buf 44\<rparr>"

section \<open>The environment: monotonic counter and UDP transport\<close>

text \<open>
  \<^verbatim>\<open>::millis()\<close> and the template parameter \<^verbatim>\<open>UDPAPI\<close> are supplied by the host.
  The environment holds what they will answer, call after call, so that every
  behaviour of a host is some environment:
  \<^item> \<open>ticks\<close>: the successive readings of \<^verbatim>\<open>::millis()\<close>, a 32-bit counter that rolls
    over (Arduino's contract: its value is below \<open>2 ^ 32\<close> also where
    \<^verbatim>\<open>unsigned long\<close> is wider);
  \<^item> \<open>polls\<close>: the successive results of \<^verbatim>\<open>parsePacket()\<close>;
  \<^item> \<open>avails\<close>: the successive results of \<^verbatim>\<open>available()\<close>;
  \<^item> \<open>chunks\<close>: what the successive calls of \<^verbatim>\<open>read(buf, len)\<close> deliver: \<open>None\<close> when
    the call returns -1, \<open>Some bs\<close> when it copies the first \<open>len\<close> bytes of \<open>bs\<close> and
    returns their number;
  \<^item> \<open>outbox\<close>: the payloads handed to \<^verbatim>\<open>write\<close>, oldest first;
  \<^item> \<open>listening\<close>: whether the socket is open (\<^verbatim>\<open>begin\<close> / \<^verbatim>\<open>stop\<close>).
\<close>

record env =
  ticks :: "u32 stream"
  polls :: "int stream"
  avails :: "int stream"
  chunks :: "u8 list option stream"
  outbox :: "u8 list list"
  listening :: bool

definition millis :: "env \<Rightarrow> u32 \<times> env" where
  "millis e = (shd (ticks e), e\<lparr>ticks := stl (ticks e)\<rparr>)"

definition udp_begin :: "env \<Rightarrow> env" where
  "udp_begin e = e\<lparr>listening := True\<rparr>"

definition udp_stop :: "env \<Rightarrow> env" where
  "udp_stop e = e\<lparr>listening := False\<rparr>"

definition udp_write :: "u8 list \<Rightarrow> env \<Rightarrow> env" where
  "udp_write bs e = e\<lparr>outbox := outbox e @ [bs]\<rparr>"

definition udp_parsePacket :: "env \<Rightarrow> int \<times> env" where
  "udp_parsePacket e = (shd (polls e), e\<lparr>polls := stl (polls e)\<rparr>)"

definition udp_available :: "env \<Rightarrow> int \<times> env" where
  "udp_available e = (shd (avails e), e\<lparr>avails := stl (avails e)\<rparr>)"

definition udp_read :: "env \<Rightarrow> nat \<Rightarrow> int \<times> u8 list \<times> env" where
  "udp_read e len =
     (case shd (chunks e) of
        None \<Rightarrow> (- 1, [], e\<lparr>chunks := stl (chunks e)\<rparr>)
      | Some bs \<Rightarrow> (int (length (take len bs)), take len bs, e\<lparr>chunks := stl (chunks e)\<rparr>))"

section \<open>The client\<close>

text \<open>
  The data members of the class; \<^verbatim>\<open>_server\<close> and \<^verbatim>\<open>_port\<close> only name the
  destination and are left out, \<^verbatim>\<open>_udp\<close> is the transport part of the environment.
  The type parameter is the type of a \<^verbatim>\<open>long\<close>. The member functions
  \<^verbatim>\<open>begin\<close> and \<^verbatim>\<open>end\<close> are \<open>beginClient\<close> and \<open>endClient\<close> here, and
  \<^verbatim>\<open>operator bool\<close> is \<open>operator_bool\<close>.
\<close>

record 'long client =
  timeOffsetSeconds :: "'long"
  lastNtpTime :: u32
  lastUpdateMillis :: u32
  timeoutMs :: u32

text \<open>The constructor with its default \<^verbatim>\<open>timeoutMs = 6000\<close> and the member initialisers.\<close>

definition TinyNTPClient :: "u32 \<Rightarrow> 'l::len word client" where
  "TinyNTPClient timeout =
     \<lparr>timeOffsetSeconds = 0, lastNtpTime = 0, lastUpdateMillis = 0, timeoutMs = timeout\<rparr>"

definition endClient :: "'l::len word client \<Rightarrow> env \<Rightarrow> 'l word client \<times> env" where
  "endClient c e =
     (c\<lparr>timeOffsetSeconds := 0, lastNtpTime := 0, lastUpdateMillis := 0\<rparr>, udp_stop e)"

definition getTimeMs :: "'l::len word client \<Rightarrow> env \<Rightarrow> u64 \<times> env" where
  "getTimeMs c e =
     (if lastUpdateMillis c = 0 then (0, e)
      else
        (case millis e of (now, e1) \<Rightarrow>
           (let ms_since_update = now - lastUpdateMillis c
            in (ucast (lastNtpTime c) * 1000 + ucast ms_since_update +
                scast (timeOffsetSeconds c) * 1000, e1))))"

definition getTimeSec :: "'l::len word client \<Rightarrow> env \<Rightarrow> u32 \<times> env" where
  "getTimeSec c e = (case getTimeMs c e of (ms, e1) \<Rightarrow> (ucast (ms div 1000), e1))"

definition setTimeOffsetSeconds :: "'l::len word client \<Rightarrow> 'l word \<Rightarrow> 'l word client" where
  "setTimeOffsetSeconds c offset = c\<lparr>timeOffsetSeconds := offset\<rparr>"

definition setTimeOffsetHours :: "'l::len word client \<Rightarrow> 'l word \<Rightarrow> 'l word client" where
  "setTimeOffsetHours c hours = c\<lparr>timeOffsetSeconds := hours * 3600\<rparr>"

definition operator_bool :: "'l::len word client \<Rightarrow> bool" where
  "operator_bool c = (lastUpdateMillis c \<noteq> 0)"

section \<open>One request/response exchange\<close>

text \<open>
  \<^verbatim>\<open>ntpExchange\<close> is embedded in the three blocks its comments mark: building and
  sending the request, waiting for a response with timeout, reading the response.
  The calls of \<^verbatim>\<open>log\<close> only print and are left out.
\<close>

definition request_packet :: "bool \<Rightarrow> u32 \<Rightarrow> NTPPacket" where
  "request_packet le tx =
     NTPPacket_zero\<lparr>li_vn_mode := 0xDB, txTm_s := l_htonl le tx, txTm_f := 0\<rparr>"

text \<open>
  \<^verbatim>\<open>begin\<close>, \<^verbatim>\<open>beginPacket\<close>, \<^verbatim>\<open>write\<close>, \<^verbatim>\<open>endPacket\<close>: their results are not
  looked at by the source, so a send that fails is noticed only as a missing reply.
\<close>

definition send_request :: "bool \<Rightarrow> env \<Rightarrow> u32 \<Rightarrow> env" where
  "send_request le e tx = udp_write (packet_bytes le (request_packet le tx)) (udp_begin e)"

text \<open>
  The polling loop. It has no bound of its own: it ends when \<^verbatim>\<open>parsePacket()\<close> is
  non-zero (result \<open>Some packetSize\<close>) or when a reading of the counter is greater
  than \<open>timeout_ms\<close> (result \<open>None\<close>, the source's \<^verbatim>\<open>return false\<close>). Not returning is
  the value \<open>None\<close> of the outer option.
\<close>

partial_function (option) wait_response :: "env \<Rightarrow> u32 \<Rightarrow> (int option \<times> env) option" where
  "wait_response e timeout_ms =
     (case udp_parsePacket e of (packetSize, e1) \<Rightarrow>
        if packetSize = 0 then
          (case millis e1 of (now, e2) \<Rightarrow>
             if now > timeout_ms then Some (None, e2) else wait_response e2 timeout_ms)
        else Some (Some packetSize, e1))"

text \<open>\<^verbatim>\<open>read(buffer + pos, len)\<close> overwrites the buffer from \<open>pos\<close> on with the data.\<close>

definition copy_into :: "u8 list \<Rightarrow> nat \<Rightarrow> u8 list \<Rightarrow> u8 list" where
  "copy_into buffer pos data = take pos buffer @ data @ drop (pos + length data) buffer"

text \<open>The loop that reads the packet data in chunks; \<^verbatim>\<open>bytesToRead\<close> is 48.\<close>

function read_loop :: "env \<Rightarrow> u8 list \<Rightarrow> nat \<Rightarrow> nat \<times> u8 list \<times> env" where
  "read_loop e buffer totalRead =
     (if totalRead < sizeof_NTPPacket then
        (case udp_available e of (a, e1) \<Rightarrow>
           if a \<noteq> 0 then
             (case udp_read e1 (sizeof_NTPPacket - totalRead) of (bytesRead, data, e2) \<Rightarrow>
                if bytesRead > 0
                then read_loop e2 (copy_into buffer totalRead data) (totalRead + nat bytesRead)
                else (totalRead, buffer, e2))
           else (totalRead, buffer, e1))
      else (totalRead, buffer, e))"
  by pat_completeness auto
termination
  by (relation "measure (\<lambda>(e, buffer, totalRead). sizeof_NTPPacket - totalRead)") auto

declare read_loop.simps [simp del]

text \<open>
  C++ division of two \<^verbatim>\<open>long\<close> values truncates towards zero. The sum of two
  \<^verbatim>\<open>long\<close> values wraps around in the model; where it would overflow, C++ leaves the
  result undefined, and the theorems that depend on it say so in a hypothesis.
\<close>

definition long_div :: "'l::len word \<Rightarrow> 'l word \<Rightarrow> 'l word" where
  "long_div a b = word_of_int (sint a sdiv sint b)"

text \<open>\<^verbatim>\<open>bool useOffset = (txTm_s != 0)\<close>.\<close>

definition useOffset :: "u32 \<Rightarrow> bool" where
  "useOffset tx = (tx \<noteq> 0)"

text \<open>
  From \<^verbatim>\<open>uint32_t t3_millis = ::millis()\<close> to the end of \<^verbatim>\<open>ntpExchange\<close>. The cast
  \<^verbatim>\<open>(long)\<close> of a \<^verbatim>\<open>uint32_t\<close> keeps the value where \<^verbatim>\<open>long\<close> is wider and
  reinterprets the bits where it has 32 bits: \<open>ucast\<close>. In
  \<^verbatim>\<open>transmit - 2208988800UL + offset\<close> the operands are converted to
  \<^verbatim>\<open>unsigned long\<close> and the result to \<^verbatim>\<open>uint32_t\<close>. When \<^verbatim>\<open>packetSize\<close> is negative,
  the length given to the logging read is taken as 0 here; the data read is only
  printed.
\<close>

definition read_response ::
  "bool \<Rightarrow> 'l::len word client \<Rightarrow> env \<Rightarrow> int \<Rightarrow> u32 \<Rightarrow> bool \<times> 'l word client \<times> env" where
  "read_response le c e packetSize tx =
     (case millis e of (t3_millis, e1) \<Rightarrow>
        if packetSize < int sizeof_NTPPacket then
          (case udp_read e1 (nat packetSize) of (n, data, e2) \<Rightarrow> (False, c, e2))
        else
          (case read_loop e1 (packet_bytes le NTPPacket_zero) 0 of (totalRead, buffer, e2) \<Rightarrow>
             if totalRead < sizeof_NTPPacket then (False, c, e2)
             else
               (let response = packet_of_bytes le buffer in
                if useOffset tx then
                  (let originate = l_ntohl le (origTm_s response);
                       receive = l_ntohl le (rxTm_s response);
                       transmit = l_ntohl le (txTm_s response)
                   in case getTimeSec c e2 of (t3_unix, e3) \<Rightarrow>
                     (let t3_ntp = t3_unix + of_nat NTP_EPOCH_DELTA;
                          offset = long_div (ucast (receive - originate) + ucast (transmit - t3_ntp))
                                     (2 :: 'l word)
                      in (True,
                          c\<lparr>lastNtpTime := ucast (ucast transmit - of_nat NTP_EPOCH_DELTA + offset),
                            lastUpdateMillis := t3_millis\<rparr>,
                          e3)))
                else
                  (let transmit = l_ntohl le (txTm_s response)
                   in (True,
                       c\<lparr>lastNtpTime := transmit - of_nat NTP_EPOCH_DELTA,
                         lastUpdateMillis := t3_millis\<rparr>,
                       e2)))))"

definition ntpExchange ::
  "bool \<Rightarrow> 'l::len word client \<Rightarrow> env \<Rightarrow> u32 \<Rightarrow> (bool \<times> 'l word client \<times> env) option" where
  "ntpExchange le c e tx =
     (case millis (send_request le e tx) of (t0, e2) \<Rightarrow>
        (let timeout_ms = t0 + timeoutMs c
         in case wait_response e2 timeout_ms of
              None \<Rightarrow> None
            | Some (None, e3) \<Rightarrow> Some (False, c, e3)
            | Some (Some packetSize, e3) \<Rightarrow> Some (read_response le c e3 packetSize tx)))"

section \<open>Synchronisation\<close>

definition updateWithoutRTC ::
  "bool \<Rightarrow> 'l::len word client \<Rightarrow> env \<Rightarrow> (bool \<times> 'l word client \<times> env) option" where
  "updateWithoutRTC le c e = ntpExchange le c e 0"

definition updateWithRTC ::
  "bool \<Rightarrow> 'l::len word client \<Rightarrow> env \<Rightarrow> (bool \<times> 'l word client \<times> env) option" where
  "updateWithRTC le c e =
     (case getTimeSec c e of (t0_unix, e1) \<Rightarrow>
        (let t0_ntp = t0_unix + of_nat NTP_EPOCH_DELTA in ntpExchange le c e1 t0_ntp))"

text \<open>
  \<^verbatim>\<open>updateWithoutRTC() && updateWithRTC()\<close>: the second operand is evaluated only
  when the first is true.
\<close>

definition update ::
  "bool \<Rightarrow> 'l::len word client \<Rightarrow> env \<Rightarrow> (bool \<times> 'l word client \<times> env) option" where
  "update le c e =
     (if lastUpdateMillis c = 0 then
        (case updateWithoutRTC le c e of
           None \<Rightarrow> None
         | Some (ok, c1, e1) \<Rightarrow> if ok then updateWithRTC le c1 e1 else Some (False, c1, e1))
      else updateWithRTC le c e)"

definition beginClient ::
  "bool \<Rightarrow> 'l::len word client \<Rightarrow> env \<Rightarrow> (bool \<times> 'l word client \<times> env) option" where
  "beginClient le c e = (case endClient c e of (c1, e1) \<Rightarrow> update le c1 e1)"

section \<open>Vocabulary of the claims\<close>

text \<open>
  The bit layout of the flags byte, from the comment of the struct:
  \<^verbatim>\<open>LI(7-6) | VN(5-3) | Mode(2-0)\<close>.
\<close>

definition leap_indicator :: "u8 \<Rightarrow> u8" where
  "leap_indicator flags = drop_bit 6 flags"

definition version_number :: "u8 \<Rightarrow> u8" where
  "version_number flags = drop_bit 3 flags AND 7"

definition mode_number :: "u8 \<Rightarrow> u8" where
  "mode_number flags = flags AND 7"

text \<open>
  The offset estimate in the words of the specification, on the mathematical values of
  the four seconds fields: \<open>offset = ((T2 - T1) + (T3 - T4)) / 2\<close> in signed
  arithmetic, and \<open>referenceEpochSeconds = T3 - NTP_EPOCH_DELTA + offset\<close> as a 32-bit
  value. The quotient is truncated, as the source's division does.
\<close>

definition spec_offset :: "u32 \<Rightarrow> u32 \<Rightarrow> u32 \<Rightarrow> u32 \<Rightarrow> int" where
  "spec_offset T1 T2 T3 T4 = ((uint T2 - uint T1) + (uint T3 - uint T4)) sdiv 2"

definition spec_referenceEpochSeconds :: "u32 \<Rightarrow> u32 \<Rightarrow> u32 \<Rightarrow> u32 \<Rightarrow> u32" where
  "spec_referenceEpochSeconds T1 T2 T3 T4 =
     word_of_int (uint T3 - int NTP_EPOCH_DELTA + spec_offset T1 T2 T3 T4)"

section \<open>Concrete replies, clients and environments\<close>

text \<open>
  A 48-byte server reply with the given originate, receive and transmit seconds in
  network byte order and every other byte zero.
\<close>

definition reply_with :: "u32 \<Rightarrow> u32 \<Rightarrow> u32 \<Rightarrow> u8 list" where
  "reply_with originate receive transmit =
     replicate 24 0 @ be_bytes originate @ replicate 4 0 @ be_bytes receive @ replicate 4 0 @
     be_bytes transmit @ replicate 4 0"

text \<open>
  A client that holds an anchor: Unix second 1000000000 at counter reading 1.
\<close>

definition synced_client :: "'l::len word client" where
  "synced_client =
     \<lparr>timeOffsetSeconds = 0, lastNtpTime = 1000000000, lastUpdateMillis = 1, timeoutMs = 6000\<rparr>"

text \<open>
  A host whose counter reads 0 when the request is sent and when the reply arrives, and
  5000 afterwards; the server answers at once with transmit seconds 3208988800
  (Unix second 1000000000).
\<close>

definition env_tick0 :: env where
  "env_tick0 =
     \<lparr>ticks = 0 ## 0 ## sconst 5000, polls = sconst 48, avails = sconst 48,
      chunks = sconst (Some (reply_with 0 3208988800 3208988800)), outbox = [],
      listening = False\<rparr>"

definition env_tick0_after :: env where
  "env_tick0_after =
     \<lparr>ticks = sconst 5000, polls = sconst 48, avails = sconst 48,
      chunks = sconst (Some (reply_with 0 3208988800 3208988800)),
      outbox = [packet_bytes True (request_packet True 0)], listening = True\<rparr>"

definition synced_at_tick0 :: "32 word client" where
  "synced_at_tick0 =
     \<lparr>timeOffsetSeconds = 0, lastNtpTime = 1000000000, lastUpdateMillis = 0, timeoutMs = 6000\<rparr>"

text \<open>
  A host whose counter reads 1001 throughout, so that \<open>synced_client\<close> estimates Unix
  second 1000000001, and whose server answers at once with originate, receive and
  transmit seconds 3208988800: the client is one second ahead of the server.
\<close>

definition env_ahead :: env where
  "env_ahead =
     \<lparr>ticks = sconst 1001, polls = sconst 48, avails = sconst 48,
      chunks = sconst (Some (reply_with 3208988800 3208988800 3208988800)), outbox = [],
      listening = False\<rparr>"

text \<open>
  A host that never receives a datagram and whose counter, 6000 ms before its
  rollover when the request is sent, advances by 1 ms from reading to reading.
\<close>

definition env_rollover :: env where
  "env_rollover =
     \<lparr>ticks = siterate (\<lambda>t. t + 1) 4294961296, polls = sconst 0, avails = sconst 0,
      chunks = sconst None, outbox = [], listening = False\<rparr>"

definition env_rollover_after :: env where
  "env_rollover_after =
     \<lparr>ticks = siterate (\<lambda>t. t + 1) 4294961298, polls = sconst 0, avails = sconst 0,
      chunks = sconst None, outbox = [packet_bytes True (request_packet True 0)],
      listening = True\<rparr>"

text \<open>
  A client whose anchor was taken 6 ms before the counter's rollover, and a host whose
  counter reads 4, just past zero.
\<close>

definition near_rollover_client :: "32 word client" where
  "near_rollover_client =
     \<lparr>timeOffsetSeconds = 0, lastNtpTime = 1000000000, lastUpdateMillis = 4294967290,
      timeoutMs = 6000\<rparr>"

definition env_past_zero :: env where
  "env_past_zero =
     \<lparr>ticks = sconst 4, polls = sconst 0, avails = sconst 0, chunks = sconst None,
      outbox = [], listening = False\<rparr>"

text \<open>
  The example of the specification: a client whose estimate is NTP second 1001 (Unix
  second 2085979497 modulo \<open>2 ^ 32\<close>) and a reply with T1 = 1000, T2 = 1005, T3 = 1006.
\<close>

definition example_client :: "'l::len word client" where
  "example_client =
     \<lparr>timeOffsetSeconds = 0, lastNtpTime = 2085979497, lastUpdateMillis = 1, timeoutMs = 6000\<rparr>"

definition env_example :: env where
  "env_example =
     \<lparr>ticks = sconst 1, polls = sconst 48, avails = sconst 48,
      chunks = sconst (Some (reply_with 1000 1005 1006)), outbox = [], listening = False\<rparr>"

text \<open>
  A silent transport whose counter jumps by 7000 ms from reading to reading, before and
  after an exchange that times out.
\<close>

definition env_silent :: env where
  "env_silent =
     \<lparr>ticks = siterate (\<lambda>t. t + 7000) 0, polls = sconst 0, avails = sconst 0,
      chunks = sconst None, outbox = [], listening = False\<rparr>"

definition env_silent_after :: env where
  "env_silent_after =
     \<lparr>ticks = siterate (\<lambda>t. t + 7000) 14000, polls = sconst 0, avails = sconst 0,
      chunks = sconst None, outbox = [packet_bytes True (request_packet True 0)],
      listening = True\<rparr>"

text \<open>
  A host that answers the first request at once and is silent afterwards: the
  environment at the start, after the bootstrap exchange, and after the second
  exchange has timed out; and the client that the bootstrap exchange leaves.
\<close>

definition env_boot_then_silent :: env where
  "env_boot_then_silent =
     \<lparr>ticks = 5 ## 10 ## 20 ## 30 ## sconst 7000, polls = 48 ## sconst 0, avails = sconst 48,
      chunks = sconst (Some (reply_with 0 3208988800 3208988800)), outbox = [],
      listening = False\<rparr>"

definition bootstrapped_client :: "32 word client" where
  "bootstrapped_client =
     \<lparr>timeOffsetSeconds = 0, lastNtpTime = 1000000000, lastUpdateMillis = 10, timeoutMs = 6000\<rparr>"

definition env_bootstrapped :: env where
  "env_bootstrapped =
     \<lparr>ticks = 20 ## 30 ## sconst 7000, polls = sconst 0, avails = sconst 48,
      chunks = sconst (Some (reply_with 0 3208988800 3208988800)),
      outbox = [packet_bytes True (request_packet True 0)], listening = True\<rparr>"

definition env_boot_final :: env where
  "env_boot_final =
     \<lparr>ticks = sconst 7000, polls = sconst 0, avails = sconst 48,
      chunks = sconst (Some (reply_with 0 3208988800 3208988800)),
      outbox = [packet_bytes True (request_packet True 0),
                packet_bytes True (request_packet True 3208988800)],
      listening = True\<rparr>"

text \<open>A host that delivers a datagram of 20 bytes, before and after the exchange.\<close>

definition env_short :: env where
  "env_short =
     \<lparr>ticks = sconst 1001, polls = sconst 20, avails = sconst 20,
      chunks = sconst (Some (replicate 20 255)), outbox = [], listening = False\<rparr>"

definition env_short_after :: env where
  "env_short_after =
     \<lparr>ticks = sconst 1001, polls = sconst 20, avails = sconst 20,
      chunks = sconst (Some (replicate 20 255)),
      outbox = [packet_bytes True (request_packet True 3208988801)], listening = True\<rparr>"

text \<open>
  \<open>env_ahead\<close> after the exchange, and the client that this exchange leaves where
  \<^verbatim>\<open>long\<close> has 32 bits.
\<close>

definition env_ahead_after :: env where
  "env_ahead_after =
     \<lparr>ticks = sconst 1001, polls = sconst 48, avails = sconst 48,
      chunks = sconst (Some (reply_with 3208988800 3208988800 3208988800)),
      outbox = [packet_bytes True (request_packet True 3208988800)], listening = True\<rparr>"

definition resynced_client :: "32 word client" where
  "resynced_client =
     \<lparr>timeOffsetSeconds = 0, lastNtpTime = 1000000000, lastUpdateMillis = 1001,
      timeoutMs = 6000\<rparr>"

text \<open>
  A reply of 48 bytes \<open>0xFF\<close>; a transport that delivers it in one read; one that
  delivers 20 bytes and then reports no more data; one that delivers 20 and then 28
  bytes.
\<close>

definition garbage_reply :: "u8 list" where
  "garbage_reply = replicate 48 255"

definition env_garbage :: env where
  "env_garbage =
     \<lparr>ticks = sconst 77, polls = sconst 48, avails = sconst 48,
      chunks = sconst (Some garbage_reply), outbox = [], listening = True\<rparr>"

definition env_partial :: env where
  "env_partial =
     \<lparr>ticks = sconst 77, polls = sconst 48, avails = 20 ## sconst 0,
      chunks = sconst (Some (replicate 20 255)), outbox = [], listening = True\<rparr>"

definition env_two_chunks :: env where
  "env_two_chunks =
     \<lparr>ticks = sconst 77, polls = sconst 48, avails = sconst 28,
      chunks = Some (replicate 20 1) ## sconst (Some (replicate 40 2)), outbox = [],
      listening = True\<rparr>"

section \<open>Vocabulary for replies, transports and client histories\<close>

text \<open>
  \<open>be32 buf off\<close> is the 32-bit value whose four bytes are at \<open>off\<close> in \<open>buf\<close>, most
  significant first: what \<^verbatim>\<open>l_ntohl\<close> yields for a field of the response structure
  on either byte order.
\<close>

definition be32 :: "u8 list \<Rightarrow> nat \<Rightarrow> u32" where
  "be32 buf off = be_word (buf ! off) (buf ! (off + 1)) (buf ! (off + 2)) (buf ! (off + 3))"

text \<open>
  \<open>delivers e cs\<close>: at its next reads the transport of \<open>e\<close> reports data available and
  hands out the non-empty chunks \<open>cs\<close>, in that order. \<open>after_reads e k\<close> is the
  environment after \<open>k\<close> such reads.
\<close>

fun delivers :: "env \<Rightarrow> u8 list list \<Rightarrow> bool" where
  "delivers e [] = True"
| "delivers e (bs # cs) =
     (shd (avails e) \<noteq> 0 \<and> shd (chunks e) = Some bs \<and> bs \<noteq> [] \<and>
      delivers (e\<lparr>avails := stl (avails e), chunks := stl (chunks e)\<rparr>) cs)"

definition after_reads :: "env \<Rightarrow> nat \<Rightarrow> env" where
  "after_reads e k = e\<lparr>avails := sdrop k (avails e), chunks := sdrop k (chunks e)\<rparr>"

text \<open>
  A client on which no exchange has succeeded since it was constructed or last reset:
  since then it was only given an offset or put through exchanges that failed.
\<close>

inductive never_synced :: "'l::len word client \<Rightarrow> bool" where
  constructed: "never_synced (TinyNTPClient timeout)"
| ended: "never_synced (fst (endClient c e))"
| offset_seconds: "never_synced c \<Longrightarrow> never_synced (setTimeOffsetSeconds c offset)"
| offset_hours: "never_synced c \<Longrightarrow> never_synced (setTimeOffsetHours c hours)"
| failed_exchange:
    "never_synced c \<Longrightarrow> ntpExchange le c e tx = Some (False, c', e') \<Longrightarrow> never_synced c'"

text \<open>
  A reply with originate second 3208988801 and receive and transmit seconds 3208988811;
  a transport that delivers it as 20 bytes and then 28 bytes; and a host whose counter
  reads 1001 throughout and whose transport delivers it in one read, before and after
  the exchange that corrects \<open>synced_client\<close>.
\<close>

definition split_reply :: "u8 list" where
  "split_reply = reply_with 3208988801 3208988811 3208988811"

definition env_split :: env where
  "env_split =
     \<lparr>ticks = sconst 1001, polls = sconst 48, avails = 28 ## 28 ## sconst 0,
      chunks = Some (take 20 split_reply) ## Some (drop 20 split_reply) ## sconst None,
      outbox = [], listening = True\<rparr>"

definition env_behind :: env where
  "env_behind =
     \<lparr>ticks = sconst 1001, polls = sconst 48, avails = sconst 48,
      chunks = sconst (Some split_reply), outbox = [], listening = False\<rparr>"

definition env_behind_after :: env where
  "env_behind_after =
     \<lparr>ticks = sconst 1001, polls = sconst 48, avails = sconst 48,
      chunks = sconst (Some split_reply),
      outbox = [packet_bytes True (request_packet True 3208988801)], listening = True\<rparr>"

definition corrected_client :: "32 word client" where
  "corrected_client =
     \<lparr>timeOffsetSeconds = 0, lastNtpTime = 1000000021, lastUpdateMillis = 1001,
      timeoutMs = 6000\<rparr>"

text \<open>
  A client with offset -3600 seconds whose anchor was installed at counter reading
  4294967290.
\<close>

definition offset_client :: "32 word client" where
  "offset_client =
     \<lparr>timeOffsetSeconds = - 3600, lastNtpTime = 1000000000, lastUpdateMillis = 4294967290,
      timeoutMs = 6000\<rparr>"

text \<open>
  A client whose estimate is Unix second 2085978496, the second at which the 32-bit
  NTP seconds wrap to 0, and a server that answers with originate second 0 and receive
  and transmit seconds 10.
\<close>

definition era_client :: "32 word client" where
  "era_client =
     \<lparr>timeOffsetSeconds = 0, lastNtpTime = 2085978496, lastUpdateMillis = 1, timeoutMs = 6000\<rparr>"

definition env_era :: env where
  "env_era =
     \<lparr>ticks = sconst 1, polls = sconst 48, avails = sconst 48,
      chunks = sconst (Some (reply_with 0 10 10)), outbox = [], listening = False\<rparr>"

definition env_era_after :: env where
  "env_era_after =
     \<lparr>ticks = sconst 1, polls = sconst 48, avails = sconst 48,
      chunks = sconst (Some (reply_with 0 10 10)),
      outbox = [packet_bytes True (request_packet True 0)], listening = True\<rparr>"

section \<open>Lemmas about the embedding\<close>

lemma mask_consts:
  "(0x000000FF :: u32) = mask 8"
  "(0x0000FF00 :: u32) = push_bit 8 (mask 8)"
  "(0x00FF0000 :: u32) = push_bit 16 (mask 8)"
  "(0xFF000000 :: u32) = push_bit 24 (mask 8)"
  by (simp_all add: mask_eq_exp_minus_1 push_bit_eq_mult)

lemma bit_swap32:
  "bit (swap32 v) n =
     (if n < 8 then bit v (n + 24) else if n < 16 then bit v (n + 8)
      else if n < 24 then bit v (n - 8) else n < 32 \<and> bit v (n - 24))"
  unfolding swap32_def mask_consts
  by (auto simp add: bit_simps add.commute)

lemma bit_be_word:
  "bit (be_word a b c d) n =
     (if n < 8 then bit d n else if n < 16 then bit c (n - 8)
      else if n < 24 then bit b (n - 16) else n < 32 \<and> bit a (n - 24))"
  unfolding be_word_def
  by (auto simp add: bit_simps dest: bit_imp_le_length)

lemma swap32_be_word: "swap32 (be_word a b c d) = be_word d c b a"
  by (rule bit_word_eqI) (auto simp add: bit_swap32 bit_be_word dest: bit_imp_le_length)

lemma swap32_swap32: "swap32 (swap32 v) = v"
  by (rule bit_word_eqI) (auto simp add: bit_swap32)

lemma be_word_be_bytes:
  "be_word (ucast (drop_bit 24 v)) (ucast (drop_bit 16 v)) (ucast (drop_bit 8 v)) (ucast v) = v"
  by (rule bit_word_eqI) (auto simp add: bit_be_word bit_simps)

lemma length_be_bytes: "length (be_bytes v) = 4"
  by (simp add: be_bytes_def)

lemma length_store32: "length (store32 le v) = 4"
  by (simp add: store32_def be_bytes_def)

lemma length_packet_bytes: "length (packet_bytes le p) = 48"
  by (simp add: packet_bytes_def length_store32)

lemma store32_htonl: "store32 le (l_htonl le v) = be_bytes v"
proof (cases le)
  case True
  have "rev (be_bytes (swap32 v)) = be_bytes v"
    unfolding be_bytes_def
    by (simp, intro conjI; rule bit_word_eqI) (auto simp add: bit_swap32 bit_simps add.commute)
  with True show ?thesis by (simp add: store32_def l_htonl_def)
next
  case False
  then show ?thesis by (simp add: store32_def l_htonl_def)
qed

lemma ntohl_load32:
  "l_ntohl le (load32 le buf off) =
     be_word (buf ! off) (buf ! (off + 1)) (buf ! (off + 2)) (buf ! (off + 3))"
  by (simp add: l_ntohl_def load32_def swap32_be_word)

lemma store32_zero: "store32 le 0 = [0, 0, 0, 0]"
  by (simp add: store32_def be_bytes_def)

lemma request_bytes:
  "packet_bytes le (request_packet le tx) = 0xDB # replicate 39 0 @ be_bytes tx @ replicate 4 0"
  by (simp add: packet_bytes_def request_packet_def NTPPacket_zero_def store32_htonl store32_zero
      numeral_eq_Suc)

lemma wait_response_frame:
  assumes "wait_response e0 t0 = Some y0"
  shows "outbox (snd y0) = outbox e0 \<and> avails (snd y0) = avails e0 \<and>
         chunks (snd y0) = chunks e0 \<and> listening (snd y0) = listening e0"
proof (rule wait_response.raw_induct
    [where P = "\<lambda>e t y. outbox (snd y) = outbox e \<and> avails (snd y) = avails e \<and>
         chunks (snd y) = chunks e \<and> listening (snd y) = listening e", OF _ assms], goal_cases)
  case (1 wait e t y)
  note IH = 1(1) and eq = 1(2)
  obtain p e1 where pp: "udp_parsePacket e = (p, e1)" by (cases "udp_parsePacket e")
  obtain now e2 where mm: "millis e1 = (now, e2)" by (cases "millis e1")
  have f1: "outbox e1 = outbox e" "avails e1 = avails e" "chunks e1 = chunks e" "listening e1 = listening e"
    using pp by (auto simp add: udp_parsePacket_def)
  have f2: "outbox e2 = outbox e1" "avails e2 = avails e1" "chunks e2 = chunks e1" "listening e2 = listening e1"
    using mm by (auto simp add: millis_def)
  show ?case
  proof (cases "p = 0")
    case False
    with eq pp f1 show ?thesis by auto
  next
    case True
    show ?thesis
    proof (cases "now > t")
      case True
      with eq pp mm \<open>p = 0\<close> f1 f2 show ?thesis by auto
    next
      case False
      with eq pp mm \<open>p = 0\<close> have "wait e2 t = Some y" by simp
      from IH[OF this] f1 f2 show ?thesis by simp
    qed
  qed
qed

lemma read_loop_frame:
  "read_loop e buffer n = (n', buffer', e') \<Longrightarrow>
     outbox e' = outbox e \<and> ticks e' = ticks e \<and> polls e' = polls e \<and> listening e' = listening e"
proof (induction e buffer n rule: read_loop.induct)
  case (1 e buffer totalRead)
  show ?case
  proof (cases "totalRead < sizeof_NTPPacket")
    case False
    with "1.prems" show ?thesis by (simp add: read_loop.simps)
  next
    case lt: True
    obtain a e1 where av: "udp_available e = (a, e1)" by (cases "udp_available e")
    have e1: "outbox e1 = outbox e" "ticks e1 = ticks e" "polls e1 = polls e" "listening e1 = listening e"
      using av by (auto simp add: udp_available_def)
    show ?thesis
    proof (cases "a = 0")
      case True
      with "1.prems" lt av e1 show ?thesis by (simp add: read_loop.simps[of e])
    next
      case nz: False
      obtain b d e2 where rd: "udp_read e1 (sizeof_NTPPacket - totalRead) = (b, d, e2)"
        by (cases "udp_read e1 (sizeof_NTPPacket - totalRead)")
      have e2: "outbox e2 = outbox e1" "ticks e2 = ticks e1" "polls e2 = polls e1" "listening e2 = listening e1"
        using rd by (auto simp add: udp_read_def split: option.splits)
      show ?thesis
      proof (cases "b > 0")
        case True
        have "read_loop e2 (copy_into buffer totalRead d) (totalRead + nat b) = (n', buffer', e')"
          using "1.prems" lt av nz rd True by (simp add: read_loop.simps[of e])
        from "1.IH"[OF lt av[symmetric] nz _ _ True this] rd e1 e2
        show ?thesis by simp
      next
        case False
        with "1.prems" lt av nz rd e1 e2 show ?thesis by (simp add: read_loop.simps[of e])
      qed
    qed
  qed
qed

lemma read_response_failure:
  "read_response le c e packetSize tx = (False, c', e') \<Longrightarrow> c' = c"
  by (auto simp add: read_response_def useOffset_def Let_def split: prod.splits if_splits)

lemma read_response_ok_iff:
  "fst (read_response le c e packetSize tx) \<longleftrightarrow>
     int sizeof_NTPPacket \<le> packetSize \<and>
     sizeof_NTPPacket \<le> fst (read_loop (snd (millis e)) (packet_bytes le NTPPacket_zero) 0)"
  by (auto simp add: read_response_def useOffset_def Let_def split: prod.splits if_splits)

lemma read_response_success:
  "read_response le c e packetSize tx = (True, c', e') \<Longrightarrow>
     lastUpdateMillis c' = shd (ticks e) \<and>
     c' = c\<lparr>lastNtpTime := lastNtpTime c', lastUpdateMillis := shd (ticks e)\<rparr>"
  by (auto simp add: read_response_def useOffset_def Let_def millis_def split: prod.splits if_splits)

lemma ntpExchange_unfold:
  "ntpExchange le c e tx =
     (case wait_response (snd (millis (send_request le e tx))) (shd (ticks e) + timeoutMs c) of
        None \<Rightarrow> None
      | Some (None, e3) \<Rightarrow> Some (False, c, e3)
      | Some (Some packetSize, e3) \<Rightarrow> Some (read_response le c e3 packetSize tx))"
  by (simp add: ntpExchange_def Let_def millis_def send_request_def udp_write_def udp_begin_def)

lemma ntpExchange_cases:
  assumes "ntpExchange le c e tx = Some (ok, c', e')"
  obtains (timeout) e3 where
      "wait_response (snd (millis (send_request le e tx)))
         (shd (ticks e) + timeoutMs c) = Some (None, e3)"
      "ok = False" "c' = c" "e' = e3"
  | (reply) packetSize e3 where
      "wait_response (snd (millis (send_request le e tx)))
         (shd (ticks e) + timeoutMs c) = Some (Some packetSize, e3)"
      "read_response le c e3 packetSize tx = (ok, c', e')"
proof (cases "wait_response (snd (millis (send_request le e tx))) (shd (ticks e) + timeoutMs c)")
  case None
  with assms show ?thesis by (simp add: ntpExchange_unfold)
next
  case (Some y)
  obtain r e3 where y: "y = (r, e3)" by (cases y)
  show ?thesis
  proof (cases r)
    case None
    have w: "wait_response (snd (millis (send_request le e tx))) (shd (ticks e) + timeoutMs c)
        = Some (None, e3)"
      using Some y None by simp
    have "Some (False, c, e3) = Some (ok, c', e')"
      using assms unfolding ntpExchange_unfold w by simp
    then have "ok = False" "c' = c" "e' = e3" by simp_all
    with w show ?thesis by (rule timeout)
  next
    case (Some packetSize)
    have w: "wait_response (snd (millis (send_request le e tx))) (shd (ticks e) + timeoutMs c)
        = Some (Some packetSize, e3)"
      using \<open>wait_response _ _ = Some y\<close> y Some by simp
    have "Some (read_response le c e3 packetSize tx) = Some (ok, c', e')"
      using assms unfolding ntpExchange_unfold w by simp
    then have "read_response le c e3 packetSize tx = (ok, c', e')" by simp
    with w show ?thesis by (rule reply)
  qed
qed

lemma zero_buffer: "packet_bytes le NTPPacket_zero = replicate 48 0"
  by (simp add: packet_bytes_def NTPPacket_zero_def store32_zero numeral_eq_Suc)

lemma copy_into_whole: "length buffer = length data \<Longrightarrow> copy_into buffer 0 data = data"
  by (simp add: copy_into_def)

lemma read_loop_done: "sizeof_NTPPacket \<le> n \<Longrightarrow> read_loop e buffer n = (n, buffer, e)"
  by (simp add: read_loop.simps)

lemma read_loop_no_data:
  "n < sizeof_NTPPacket \<Longrightarrow> shd (avails e) = 0 \<Longrightarrow>
     read_loop e buffer n = (n, buffer, e\<lparr>avails := stl (avails e)\<rparr>)"
  by (simp add: read_loop.simps[of e] udp_available_def)

lemma read_loop_single_chunk:
  assumes "length buffer = 48" and "shd (avails e) \<noteq> 0" and "shd (chunks e) = Some bs"
    and "length bs = 48"
  shows "read_loop e buffer 0 = (48, bs, e\<lparr>avails := stl (avails e), chunks := stl (chunks e)\<rparr>)"
proof -
  have "read_loop e buffer 0 =
      read_loop (e\<lparr>avails := stl (avails e), chunks := stl (chunks e)\<rparr>) (copy_into buffer 0 bs) 48"
    using assms
    by (subst read_loop.simps) (simp add: udp_available_def udp_read_def sizeof_NTPPacket_def)
  then show ?thesis
    using assms by (simp add: read_loop_done sizeof_NTPPacket_def copy_into_whole)
qed

lemma time_words:
  fixes a ms :: u32 and off :: "'l::len word"
  shows "(ucast a * 1000 + ucast ms + scast off * 1000 :: u64) =
     word_of_int (uint a * 1000 + uint ms + sint off * 1000)"
  by (simp only: ucast_eq scast_eq of_int_add of_int_mult of_int_numeral)

lemma getTimeMs_eq:
  fixes c :: "'l::len word client"
  shows "getTimeMs c e =
     (if lastUpdateMillis c = 0 then (0, e)
      else (word_of_int (uint (lastNtpTime c) * 1000 + uint (shd (ticks e) - lastUpdateMillis c) +
              sint (timeOffsetSeconds c) * 1000),
            e\<lparr>ticks := stl (ticks e)\<rparr>))"
  by (simp add: getTimeMs_def millis_def Let_def time_words del: of_int_add of_int_mult)

lemma nth_be_bytes:
  "be_word (be_bytes v ! 0) (be_bytes v ! Suc 0) (be_bytes v ! 2) (be_bytes v ! 3) = v"
  by (simp add: be_bytes_def be_word_be_bytes)

lemma length_reply_with: "length (reply_with a b c) = 48"
  by (simp add: reply_with_def length_be_bytes)

lemma reply_with_fields:
  "l_ntohl le (origTm_s (packet_of_bytes le (reply_with a b c))) = a"
  "l_ntohl le (rxTm_s (packet_of_bytes le (reply_with a b c))) = b"
  "l_ntohl le (txTm_s (packet_of_bytes le (reply_with a b c))) = c"
  by (simp_all add: packet_of_bytes_def ntohl_load32 reply_with_def nth_append length_be_bytes
      nth_be_bytes)

lemma ntpExchange_immediate:
  assumes "shd (polls e) \<noteq> 0"
  shows "ntpExchange le c e tx =
     Some (read_response le c (snd (udp_parsePacket (snd (millis (send_request le e tx)))))
       (shd (polls e)) tx)"
proof -
  have p: "shd (polls (snd (millis (send_request le e tx)))) = shd (polls e)"
    by (simp add: millis_def send_request_def udp_write_def udp_begin_def)
  have "wait_response (snd (millis (send_request le e tx))) t =
        Some (Some (shd (polls e)), snd (udp_parsePacket (snd (millis (send_request le e tx)))))" for t
    using assms p by (subst wait_response.simps) (simp add: udp_parsePacket_def)
  then show ?thesis
    unfolding ntpExchange_unfold by simp
qed

lemma read_response_bootstrap:
  assumes "48 \<le> ps" and "shd (avails e) \<noteq> 0" and "shd (chunks e) = Some bs" and "length bs = 48"
  shows "read_response le c e ps 0 =
     (True,
      c\<lparr>lastNtpTime := l_ntohl le (txTm_s (packet_of_bytes le bs)) - of_nat NTP_EPOCH_DELTA,
        lastUpdateMillis := shd (ticks e)\<rparr>,
      e\<lparr>ticks := stl (ticks e), avails := stl (avails e), chunks := stl (chunks e)\<rparr>)"
  using assms
  by (simp add: read_response_def useOffset_def millis_def sizeof_NTPPacket_def zero_buffer
      read_loop_single_chunk Let_def)

lemma read_response_offset:
  fixes c :: "'l::len word client"
  assumes "48 \<le> ps" and "shd (avails e) \<noteq> 0" and "shd (chunks e) = Some bs" and "length bs = 48"
    and "tx \<noteq> 0"
  shows "read_response le c e ps tx =
     (True,
      c\<lparr>lastNtpTime :=
          ucast (ucast (l_ntohl le (txTm_s (packet_of_bytes le bs))) - of_nat NTP_EPOCH_DELTA +
            long_div
              (ucast (l_ntohl le (rxTm_s (packet_of_bytes le bs)) -
                      l_ntohl le (origTm_s (packet_of_bytes le bs))) +
               ucast (l_ntohl le (txTm_s (packet_of_bytes le bs)) -
                      (fst (getTimeSec c (e\<lparr>ticks := stl (ticks e), avails := stl (avails e),
                          chunks := stl (chunks e)\<rparr>)) + of_nat NTP_EPOCH_DELTA)))
              (2 :: 'l word)),
        lastUpdateMillis := shd (ticks e)\<rparr>,
      snd (getTimeSec c (e\<lparr>ticks := stl (ticks e), avails := stl (avails e),
                          chunks := stl (chunks e)\<rparr>)))"
  using assms
  by (simp add: read_response_def useOffset_def millis_def sizeof_NTPPacket_def zero_buffer
      read_loop_single_chunk Let_def split: prod.splits)

lemma ucast_minus_1_u32_u64: "(ucast (- 1 :: 32 word) :: 64 word) = 4294967295"
  by (simp add: unsigned_minus_1_eq_mask mask_eq_exp_minus_1)

lemma ntpExchange_failure:
  assumes "ntpExchange le c e tx = Some (False, c', e')"
  shows "c' = c"
  using assms
proof (cases rule: ntpExchange_cases)
  case (timeout e3)
  then show ?thesis by simp
next
  case (reply packetSize e3)
  then show ?thesis by (simp add: read_response_failure)
qed

lemma getTimeSec_frame:
  "outbox (snd (getTimeSec c e)) = outbox e"
  by (simp add: getTimeSec_def getTimeMs_def millis_def Let_def case_prod_beta)

lemma read_response_outbox:
  "outbox (snd (snd (read_response le c e ps tx))) = outbox e"
proof -
  let ?e1 = "e\<lparr>ticks := stl (ticks e)\<rparr>"
  have m: "millis e = (shd (ticks e), ?e1)" by (simp add: millis_def)
  show ?thesis
  proof (cases "ps < int sizeof_NTPPacket")
    case True
    then show ?thesis
      by (simp add: read_response_def useOffset_def m udp_read_def split: option.splits)
  next
    case False
    obtain n buf e2 where rl: "read_loop ?e1 (packet_bytes le NTPPacket_zero) 0 = (n, buf, e2)"
      by (cases "read_loop ?e1 (packet_bytes le NTPPacket_zero) 0")
    from read_loop_frame[OF rl] have o2: "outbox e2 = outbox e" by simp
    from False rl o2 show ?thesis
      by (simp add: read_response_def useOffset_def m Let_def case_prod_beta getTimeSec_frame)
  qed
qed

lemma ntpExchange_outbox:
  assumes "ntpExchange le c e tx = Some (ok, c', e')"
  shows "outbox e' = outbox e @ [packet_bytes le (request_packet le tx)]"
proof -
  have s: "outbox (snd (millis (send_request le e tx))) = outbox e @ [packet_bytes le (request_packet le tx)]"
    by (simp add: millis_def send_request_def udp_write_def udp_begin_def)
  from assms show ?thesis
  proof (cases rule: ntpExchange_cases)
    case (timeout e3)
    from wait_response_frame[OF timeout(1)] s timeout(4) show ?thesis by simp
  next
    case (reply packetSize e3)
    from wait_response_frame[OF reply(1)] have "outbox e3 = outbox (snd (millis (send_request le e tx)))"
      by simp
    moreover have "outbox e' = outbox e3"
      using read_response_outbox[of le c e3 packetSize tx] reply(2) by simp
    ultimately show ?thesis using s by simp
  qed
qed

lemma wait_response_deadline_max:
  assumes "polls e0 = sconst 0"
  shows "wait_response e0 (- 1) = None"
proof (rule ccontr)
  assume "wait_response e0 (- 1) \<noteq> None"
  then obtain y0 where w: "wait_response e0 (- 1) = Some y0" by auto
  have "polls e0 = sconst 0 \<longrightarrow> (- 1 :: u32) = - 1 \<longrightarrow> False"
  proof (rule wait_response.raw_induct
      [where P = "\<lambda>e t y. polls e = sconst 0 \<longrightarrow> t = - 1 \<longrightarrow> False", OF _ w], goal_cases)
    case (1 wait e t y)
    note IH = 1(1) and eq = 1(2)
    show ?case
    proof (intro impI)
      assume p: "polls e = sconst 0" and t: "t = - 1"
      have nl: "\<not> (- 1 :: u32) < shd (ticks e)"
        by (simp add: not_less)
      from eq p t nl
      have "wait (e\<lparr>polls := stl (polls e), ticks := stl (ticks e)\<rparr>) (- 1) = Some y"
        by (simp add: udp_parsePacket_def millis_def)
      from IH[OF this] p show False by simp
    qed
  qed
  with assms show False by simp
qed

lemma ntpExchange_never_returns:
  assumes "polls e = sconst 0" and "shd (ticks e) + timeoutMs c = - 1"
  shows "ntpExchange le c e tx = None"
proof -
  have "polls (snd (millis (send_request le e tx))) = sconst 0"
    using assms(1) by (simp add: millis_def send_request_def udp_write_def udp_begin_def)
  from wait_response_deadline_max[OF this] assms(2) show ?thesis
    by (simp add: ntpExchange_unfold)
qed

lemma sint_two_32: "sint (2 :: 32 word) = 2"
  by simp

lemma sint_two_64: "sint (2 :: 64 word) = 2"
  by simp

lemma sdiv_two_range:
  fixes k :: int
  assumes "lo \<le> k" and "k < hi" and "lo \<le> 0" and "0 < hi"
  shows "lo \<le> k sdiv 2" and "k sdiv 2 < hi"
  using assms by (auto simp add: signed_divide_int_def sgn_if)

lemma long_div_long32:
  fixes A B :: u32
  assumes "- (2 ^ 31) \<le> sint A + sint B" and "sint A + sint B < 2 ^ 31"
  shows "sint (long_div (ucast A + ucast B) (2 :: 32 word)) = (sint A + sint B) sdiv 2"
proof -
  have s: "sint (A + B) = sint A + sint B"
    using assms by (simp add: sint_word_ariths signed_take_bit_int_eq_self)
  have b: "- (2 ^ 31) \<le> (sint A + sint B) sdiv 2" "(sint A + sint B) sdiv 2 < 2 ^ 31"
    using assms sdiv_two_range[of "- (2 ^ 31)" "sint A + sint B" "2 ^ 31"] by simp_all
  show ?thesis
    using b by (simp add: long_div_def s sint_two_32 sint_sbintrunc' signed_take_bit_int_eq_self)
qed

lemma long_div_long64:
  fixes A B :: u32
  shows "sint (long_div (ucast A + ucast B) (2 :: 64 word)) = (uint A + uint B) div 2"
proof -
  have ua: "uint A + uint B < 2 ^ 33" "0 \<le> uint A + uint B" "uint A < 2 ^ 32" "uint B < 2 ^ 32"
    using uint_lt2p[of A] uint_lt2p[of B] by simp_all
  have u: "uint (ucast A + ucast B :: 64 word) = uint A + uint B"
    using ua by (simp add: uint_word_ariths uint_up_ucast is_up)
  have "- (2 ^ 63) \<le> (0 :: int)" by simp
  also have "0 \<le> uint A + uint B" by simp
  finally have lo: "- (2 ^ 63) \<le> uint A + uint B" .
  have hi: "uint A + uint B < 2 ^ 63" using ua(1) by simp
  have "signed_take_bit 63 (uint A + uint B) = uint A + uint B"
    by (rule signed_take_bit_int_eq_self[OF lo hi])
  then have s: "sint (ucast A + ucast B :: 64 word) = uint A + uint B"
    using u by (simp add: sint_uint)
  have d: "(uint A + uint B) sdiv 2 = (uint A + uint B) div 2"
    using ua by (simp add: signed_divide_int_def sgn_if)
  have "- (2 ^ 63) \<le> (0 :: int)" by simp
  also have "0 \<le> (uint A + uint B) div 2" by simp
  finally have lo2: "- (2 ^ 63) \<le> (uint A + uint B) div 2" .
  have hi2: "(uint A + uint B) div 2 < 2 ^ 63" using ua(1) by simp
  have "signed_take_bit 63 ((uint A + uint B) div 2) = (uint A + uint B) div 2"
    by (rule signed_take_bit_int_eq_self[OF lo2 hi2])
  then show ?thesis
    by (simp add: long_div_def s d sint_sbintrunc')
qed

lemma sint_diff_small:
  fixes a b :: u32
  assumes "\<bar>uint a - uint b\<bar> < 2 ^ 30"
  shows "sint (a - b) = uint a - uint b"
proof -
  have "- (2 ^ 31) \<le> uint a - uint b" "uint a - uint b < 2 ^ 31"
    using assms by simp_all
  then have "signed_take_bit 31 (uint a - uint b) = uint a - uint b"
    by (intro signed_take_bit_int_eq_self) simp_all
  moreover have "sint (a - b) = signed_take_bit 31 (uint a - uint b)"
    by (subst word_sub_wi) (simp only: sint_sbintrunc', simp)
  ultimately show ?thesis
    by simp
qed

lemma anchor_long32_matches_spec:
  fixes T1 T2 T3 T4 :: u32
  assumes "\<bar>uint T2 - uint T1\<bar> < 2 ^ 30" and "\<bar>uint T3 - uint T4\<bar> < 2 ^ 30"
  shows "(ucast ((ucast T3 :: 32 word) - of_nat NTP_EPOCH_DELTA +
            long_div (ucast (T2 - T1) + ucast (T3 - T4)) 2) :: u32) =
         spec_referenceEpochSeconds T1 T2 T3 T4"
proof -
  have a: "sint (T2 - T1) = uint T2 - uint T1" and b: "sint (T3 - T4) = uint T3 - uint T4"
    using assms by (simp_all add: sint_diff_small)
  have r: "- (2 ^ 31) \<le> sint (T2 - T1) + sint (T3 - T4)" "sint (T2 - T1) + sint (T3 - T4) < 2 ^ 31"
    using assms a b by simp_all
  have "long_div (ucast (T2 - T1) + ucast (T3 - T4)) (2 :: 32 word) =
      word_of_int (sint (long_div (ucast (T2 - T1) + ucast (T3 - T4)) (2 :: 32 word)))"
    by simp
  also have "\<dots> = word_of_int (spec_offset T1 T2 T3 T4)"
    unfolding long_div_long32[OF r] by (simp add: spec_offset_def a b)
  finally have l: "long_div (ucast (T2 - T1) + ucast (T3 - T4)) (2 :: 32 word) =
      word_of_int (spec_offset T1 T2 T3 T4)" .
  show ?thesis
    unfolding l spec_referenceEpochSeconds_def
    by (simp add: NTP_EPOCH_DELTA_def)
qed

lemma anchor_long64_unsigned:
  fixes T1 T2 T3 T4 :: u32
  shows "(ucast ((ucast T3 :: 64 word) - of_nat NTP_EPOCH_DELTA +
            long_div (ucast (T2 - T1) + ucast (T3 - T4)) 2) :: u32) =
         word_of_int (uint T3 - int NTP_EPOCH_DELTA + (uint (T2 - T1) + uint (T3 - T4)) div 2)"
proof -
  have "long_div (ucast (T2 - T1) + ucast (T3 - T4)) (2 :: 64 word) =
      word_of_int (sint (long_div (ucast (T2 - T1) + ucast (T3 - T4)) (2 :: 64 word)))"
    by simp
  then have l: "long_div (ucast (T2 - T1) + ucast (T3 - T4)) (2 :: 64 word) =
      word_of_int ((uint (T2 - T1) + uint (T3 - T4)) div 2)"
    unfolding long_div_long64 .
  let ?k = "(uint (T2 - T1) + uint (T3 - T4)) div 2"
  have e64: "(ucast T3 - 2208988800 + word_of_int ?k :: 64 word) =
      word_of_int (uint T3 - 2208988800 + ?k)"
    by simp
  have e32: "(T3 - 2208988800 + word_of_int ?k :: u32) =
      word_of_int (uint T3 - 2208988800 + ?k)"
    by simp
  have d: "(ucast (word_of_int m :: 64 word) :: u32) = word_of_int m" for m
    by (rule ucast_down_wi) (simp add: is_down)
  show ?thesis
    unfolding l NTP_EPOCH_DELTA_def
    using e64 e32 d[of "uint T3 - 2208988800 + ?k"] by simp
qed

lemma exchange_at_tick0:
  "ntpExchange True (TinyNTPClient 6000) env_tick0 0 =
     Some (True, synced_at_tick0, env_tick0_after)"
  by (simp add: env_tick0_def ntpExchange_immediate read_response_bootstrap length_reply_with
      millis_def send_request_def udp_write_def udp_begin_def udp_parsePacket_def
      reply_with_fields TinyNTPClient_def NTP_EPOCH_DELTA_def synced_at_tick0_def
      env_tick0_after_def)

text \<open>
  The polling loop on a transport that never reports a datagram: it returns "timed
  out" at the first reading of the counter that is greater than the deadline.
\<close>

lemma sconst_polls:
  assumes "polls e = sconst 0"
  shows "shd (polls e) = 0" and "stl (polls e) = polls e"
  by (simp_all add: assms)

lemma wait_response_times_out:
  assumes "shd (polls e) = 0" and "stl (polls e) = polls e"
    and "\<forall>i<n. \<not> t < ticks e !! i" and "t < ticks e !! n"
  shows "wait_response e t = Some (None, e\<lparr>ticks := sdrop (Suc n) (ticks e)\<rparr>)"
  using assms
proof (induction n arbitrary: e)
  case 0
  have "e\<lparr>polls := stl (polls e), ticks := stl (ticks e)\<rparr> = e\<lparr>ticks := stl (ticks e)\<rparr>"
    by (simp only: 0(2)) simp
  with 0(1,4) show ?case
    by (subst wait_response.simps) (simp add: udp_parsePacket_def millis_def)
next
  case (Suc n)
  let ?e2 = "e\<lparr>ticks := stl (ticks e)\<rparr>"
  have e2: "e\<lparr>polls := stl (polls e), ticks := stl (ticks e)\<rparr> = ?e2"
    by (simp only: Suc.prems(2)) simp
  have "0 < Suc n" by simp
  with Suc.prems(3) have "\<not> t < ticks e !! 0" by blast
  then have nl: "\<not> t < shd (ticks e)" by simp
  have p2: "shd (polls ?e2) = 0" "stl (polls ?e2) = polls ?e2"
    using Suc.prems(1,2) by simp_all
  have a2: "\<forall>i<n. \<not> t < ticks ?e2 !! i"
  proof (intro allI impI)
    fix i assume "i < n"
    then have "Suc i < Suc n" by simp
    with Suc.prems(3) have "\<not> t < ticks e !! Suc i" by blast
    then show "\<not> t < ticks ?e2 !! i" by simp
  qed
  have l2: "t < ticks ?e2 !! n" using Suc.prems(4) by simp
  have "wait_response e t = wait_response ?e2 t"
    using Suc.prems(1) nl
    by (subst wait_response.simps) (simp add: udp_parsePacket_def millis_def e2)
  also have "\<dots> = Some (None, ?e2\<lparr>ticks := sdrop (Suc n) (ticks ?e2)\<rparr>)"
    by (rule Suc.IH[OF p2 a2 l2])
  finally show ?case by simp
qed

lemma ntpExchange_times_out:
  assumes "polls e = sconst 0"
    and "\<forall>i<n. \<not> shd (ticks e) + timeoutMs c < stl (ticks e) !! i"
    and "shd (ticks e) + timeoutMs c < stl (ticks e) !! n"
  shows "\<exists>e'. ntpExchange le c e tx = Some (False, c, e')"
proof -
  let ?e1 = "snd (millis (send_request le e tx))"
  have p: "polls ?e1 = sconst 0"
    using assms(1) by (simp add: millis_def send_request_def udp_write_def udp_begin_def)
  have t: "ticks ?e1 = stl (ticks e)"
    by (simp add: millis_def send_request_def udp_write_def udp_begin_def)
  from wait_response_times_out[OF sconst_polls[OF p], of n "shd (ticks e) + timeoutMs c"]
    assms(2,3) t
  have "wait_response ?e1 (shd (ticks e) + timeoutMs c) =
      Some (None, ?e1\<lparr>ticks := sdrop (Suc n) (ticks ?e1)\<rparr>)"
    by simp
  then show ?thesis by (simp add: ntpExchange_unfold)
qed

section \<open>Exchanges on concrete environments\<close>

lemma silent_bootstrap_fails:
  "ntpExchange True (TinyNTPClient 6000 :: 32 word client) env_silent 0 =
     Some (False, TinyNTPClient 6000, env_silent_after)"
  unfolding ntpExchange_unfold
  by (simp add: env_silent_def env_silent_after_def millis_def send_request_def udp_write_def
      udp_begin_def TinyNTPClient_def wait_response.simps udp_parsePacket_def)

lemma boot_then_silent_first:
  "ntpExchange True (TinyNTPClient 6000) env_boot_then_silent 0 =
     Some (True, bootstrapped_client, env_bootstrapped)"
  by (simp add: env_boot_then_silent_def ntpExchange_immediate read_response_bootstrap
      length_reply_with millis_def send_request_def udp_write_def udp_begin_def
      udp_parsePacket_def reply_with_fields TinyNTPClient_def NTP_EPOCH_DELTA_def
      bootstrapped_client_def env_bootstrapped_def)

lemma boot_then_silent_estimate:
  "getTimeSec bootstrapped_client env_bootstrapped =
     (1000000000, env_bootstrapped\<lparr>ticks := 30 ## sconst 7000\<rparr>)"
  by (simp add: getTimeSec_def getTimeMs_def bootstrapped_client_def env_bootstrapped_def
      millis_def Let_def)

lemma boot_then_silent_second:
  "ntpExchange True bootstrapped_client (env_bootstrapped\<lparr>ticks := 30 ## sconst 7000\<rparr>)
     3208988800 = Some (False, bootstrapped_client, env_boot_final)"
  unfolding ntpExchange_unfold
  by (simp add: env_bootstrapped_def env_boot_final_def millis_def send_request_def udp_write_def
      udp_begin_def bootstrapped_client_def wait_response.simps udp_parsePacket_def)

lemma short_datagram_fails:
  "ntpExchange True (synced_client :: 32 word client) env_short 3208988801 =
     Some (False, synced_client, env_short_after)"
  by (simp add: env_short_def env_short_after_def ntpExchange_immediate millis_def
      send_request_def udp_write_def udp_begin_def udp_parsePacket_def read_response_def useOffset_def
      sizeof_NTPPacket_def udp_read_def)

lemma exchange_ahead_long32:
  "ntpExchange True (synced_client :: 32 word client) env_ahead 3208988800 =
     Some (True, resynced_client, env_ahead_after)"
  by (simp add: env_ahead_def env_ahead_after_def resynced_client_def ntpExchange_immediate
      millis_def send_request_def udp_write_def udp_begin_def udp_parsePacket_def
      read_response_offset length_reply_with reply_with_fields getTimeSec_def getTimeMs_def
      synced_client_def Let_def NTP_EPOCH_DELTA_def long_div_def signed_divide_int_def)

lemma read_loop_step:
  assumes "n < 48" and "shd (avails e) \<noteq> 0" and "shd (chunks e) = Some bs" and "bs \<noteq> []"
  shows "read_loop e buffer n =
     read_loop (e\<lparr>avails := stl (avails e), chunks := stl (chunks e)\<rparr>)
       (copy_into buffer n (take (48 - n) bs)) (n + min (48 - n) (length bs))"
proof -
  have "0 < min (length bs) (48 - n)" using assms(1,4) by simp
  then show ?thesis
    using assms
    by (subst read_loop.simps)
      (simp add: udp_available_def udp_read_def sizeof_NTPPacket_def min.commute)
qed

lemma partial_read_total:
  "fst (read_loop (snd (millis env_partial)) (packet_bytes True NTPPacket_zero) 0) = 20"
  by (simp add: env_partial_def millis_def read_loop_step read_loop_no_data sizeof_NTPPacket_def)

lemma two_chunks_accepted:
  "fst (read_response True (TinyNTPClient 6000 :: 32 word client) env_two_chunks 48 0)"
proof -
  have "fst (read_loop (snd (millis env_two_chunks)) (packet_bytes True NTPPacket_zero) 0) = 48"
    by (simp add: env_two_chunks_def millis_def read_loop_step read_loop_done
        sizeof_NTPPacket_def)
  then show ?thesis
    by (simp add: read_response_ok_iff sizeof_NTPPacket_def)
qed

section \<open>Reading a reply in chunks\<close>

lemma after_reads_0: "after_reads e 0 = e"
  by (simp add: after_reads_def)

lemma after_reads_Suc:
  "after_reads (e\<lparr>avails := stl (avails e), chunks := stl (chunks e)\<rparr>) k = after_reads e (Suc k)"
  by (simp add: after_reads_def)

lemma copy_into_length:
  "pos + length data \<le> length buffer \<Longrightarrow> length (copy_into buffer pos data) = length buffer"
  by (simp add: copy_into_def)

lemma copy_into_append:
  assumes "pos + length data + m \<le> length buffer"
  shows "take (pos + length data) (copy_into buffer pos data) @ rest @
           drop (pos + length data + m) (copy_into buffer pos data) =
         take pos buffer @ (data @ rest) @ drop (pos + length data + m) buffer"
  using assms by (simp add: copy_into_def add.commute)

lemma read_loop_chunks:
  assumes "delivers e cs" and "n + length (concat cs) \<le> 48" and "length buffer = 48"
  shows "read_loop e buffer n =
     read_loop (after_reads e (length cs))
       (take n buffer @ concat cs @ drop (n + length (concat cs)) buffer)
       (n + length (concat cs))"
  using assms
proof (induction cs arbitrary: e buffer n)
  case Nil
  then show ?case by (simp add: after_reads_0)
next
  case (Cons bs cs)
  let ?e1 = "e\<lparr>avails := stl (avails e), chunks := stl (chunks e)\<rparr>"
  from Cons.prems(1) have a: "shd (avails e) \<noteq> 0" and c: "shd (chunks e) = Some bs"
    and ne: "bs \<noteq> []" and d: "delivers ?e1 cs"
    by simp_all
  from Cons.prems(2) have le: "n + length bs + length (concat cs) \<le> 48" by simp
  with ne have n: "n < 48" by (cases bs) simp_all
  from le have fit: "length bs \<le> 48 - n" by simp
  have "read_loop e buffer n =
      read_loop ?e1 (copy_into buffer n (take (48 - n) bs)) (n + min (48 - n) (length bs))"
    by (rule read_loop_step[OF n a c ne])
  also have "\<dots> = read_loop ?e1 (copy_into buffer n bs) (n + length bs)"
    using fit by (simp add: min_absorb2)
  also have "\<dots> = read_loop (after_reads ?e1 (length cs))
       (take (n + length bs) (copy_into buffer n bs) @ concat cs @
          drop (n + length bs + length (concat cs)) (copy_into buffer n bs))
       (n + length bs + length (concat cs))"
    using le Cons.prems(3)
    by (intro Cons.IH[OF d]) (simp_all add: copy_into_length)
  also have "take (n + length bs) (copy_into buffer n bs) @ concat cs @
          drop (n + length bs + length (concat cs)) (copy_into buffer n bs) =
        take n buffer @ (bs @ concat cs) @ drop (n + length bs + length (concat cs)) buffer"
    using le Cons.prems(3) by (intro copy_into_append) simp
  finally show ?case
    by (simp add: after_reads_Suc add.assoc)
qed

lemma read_loop_complete:
  assumes "delivers e cs" and "length (concat cs) = 48" and "length buffer = 48"
  shows "read_loop e buffer 0 = (48, concat cs, after_reads e (length cs))"
  using read_loop_chunks[OF assms(1), of 0 buffer] assms(2,3)
  by (simp add: read_loop_done sizeof_NTPPacket_def)

lemma read_loop_no_read:
  assumes "n < 48" and "shd (avails e) \<noteq> 0"
    and "shd (chunks e) = None \<or> shd (chunks e) = Some []"
  shows "fst (read_loop e buffer n) = n"
  using assms
  by (subst read_loop.simps)
    (auto simp add: udp_available_def udp_read_def sizeof_NTPPacket_def)

lemma read_loop_incomplete:
  assumes "delivers e cs" and "length (concat cs) < 48" and "length buffer = 48"
    and "avails e !! length cs = 0 \<or> chunks e !! length cs = None \<or>
         chunks e !! length cs = Some []"
  shows "fst (read_loop e buffer 0) = length (concat cs)"
proof -
  let ?e = "after_reads e (length cs)"
  let ?b = "concat cs @ drop (length (concat cs)) buffer"
  have r: "read_loop e buffer 0 = read_loop ?e ?b (length (concat cs))"
    using read_loop_chunks[OF assms(1), of 0 buffer] assms(2,3) by simp
  have s: "shd (avails ?e) = avails e !! length cs" "shd (chunks ?e) = chunks e !! length cs"
    by (simp_all add: after_reads_def)
  show ?thesis
  proof (cases "avails e !! length cs = 0")
    case True
    then show ?thesis
      using r s assms(2) by (simp add: read_loop_no_data sizeof_NTPPacket_def)
  next
    case False
    with assms(4) s have "shd (avails ?e) \<noteq> 0"
      and "shd (chunks ?e) = None \<or> shd (chunks ?e) = Some []"
      by simp_all
    from read_loop_no_read[OF assms(2) this] r show ?thesis by simp
  qed
qed

lemma ntohl_load32_be32: "l_ntohl le (load32 le buf off) = be32 buf off"
  by (simp add: ntohl_load32 be32_def)

lemma packet_fields_be32:
  "l_ntohl le (origTm_s (packet_of_bytes le buf)) = be32 buf 24"
  "l_ntohl le (rxTm_s (packet_of_bytes le buf)) = be32 buf 32"
  "l_ntohl le (txTm_s (packet_of_bytes le buf)) = be32 buf 40"
  by (simp_all add: packet_of_bytes_def ntohl_load32_be32)

lemma read_response_result:
  fixes c :: "'l::len word client"
  assumes "read_loop (snd (millis e)) (packet_bytes le NTPPacket_zero) 0 = (n, buf, e2)"
    and "48 \<le> packetSize" and "48 \<le> n"
  shows "read_response le c e packetSize tx =
     (True,
      c\<lparr>lastNtpTime :=
          (if tx = 0 then be32 buf 40 - 2208988800
           else ucast (ucast (be32 buf 40) - 2208988800 +
                  long_div
                    (ucast (be32 buf 32 - be32 buf 24) +
                     ucast (be32 buf 40 - (fst (getTimeSec c e2) + 2208988800)))
                    (2 :: 'l word))),
        lastUpdateMillis := shd (ticks e)\<rparr>,
      if tx = 0 then e2 else snd (getTimeSec c e2))"
proof -
  have m: "millis e = (shd (ticks e), snd (millis e))" by (simp add: millis_def)
  show ?thesis
    using assms
    by (subst read_response_def, subst m)
      (simp add: sizeof_NTPPacket_def useOffset_def Let_def case_prod_beta packet_fields_be32
        NTP_EPOCH_DELTA_def)
qed

lemma delivers_cong:
  "avails e' = avails e \<Longrightarrow> chunks e' = chunks e \<Longrightarrow> delivers e' cs = delivers e cs"
proof (induction cs arbitrary: e e')
  case Nil
  show ?case by simp
next
  case (Cons bs cs)
  have "delivers (e'\<lparr>avails := stl (avails e'), chunks := stl (chunks e')\<rparr>) cs =
      delivers (e\<lparr>avails := stl (avails e), chunks := stl (chunks e)\<rparr>) cs"
    by (rule Cons.IH) (simp_all add: Cons.prems)
  then show ?case by (simp add: Cons.prems)
qed

lemma delivers_millis: "delivers (snd (millis e)) cs = delivers e cs"
  by (rule delivers_cong) (simp_all add: millis_def)

lemma be32_reply_with:
  "be32 (reply_with a b c) 24 = a"
  "be32 (reply_with a b c) 32 = b"
  "be32 (reply_with a b c) 40 = c"
  by (simp_all add: be32_def reply_with_def nth_append length_be_bytes nth_be_bytes)

lemma split_reply_chunks:
  "delivers env_split [take 20 split_reply, drop 20 split_reply]"
  "length (concat [take 20 split_reply, drop 20 split_reply]) = 48"
  "concat [take 20 split_reply, drop 20 split_reply] = split_reply"
  by (simp_all add: env_split_def split_reply_def length_reply_with, simp_all add: reply_with_def)

lemma partial_chunks:
  "delivers env_partial [replicate 20 255]"
  "length (concat [replicate 20 255 :: u8 list]) < 48"
  "avails env_partial !! length [replicate 20 255 :: u8 list] = 0"
  by (simp_all add: env_partial_def)

lemma garbage_chunks:
  "delivers env_garbage [garbage_reply]"
  "length (concat [garbage_reply]) = 48"
  "be32 (concat [garbage_reply]) 40 = 4294967295"
  by (simp_all add: env_garbage_def garbage_reply_def be32_def be_word_def)

lemma exchange_behind_long32:
  "ntpExchange True (synced_client :: 32 word client) env_behind 3208988801 =
     Some (True, corrected_client, env_behind_after)"
  by (simp add: env_behind_def env_behind_after_def corrected_client_def ntpExchange_immediate
      millis_def send_request_def udp_write_def udp_begin_def udp_parsePacket_def
      read_response_offset split_reply_def length_reply_with reply_with_fields getTimeSec_def
      getTimeMs_def synced_client_def Let_def NTP_EPOCH_DELTA_def long_div_def
      signed_divide_int_def)

section \<open>Client histories and elapsed time\<close>

lemma never_synced_tick:
  "never_synced c \<Longrightarrow> lastUpdateMillis c = 0"
proof (induction rule: never_synced.induct)
  case (constructed timeout)
  show ?case by (simp add: TinyNTPClient_def)
next
  case (ended c e)
  show ?case by (simp add: endClient_def)
next
  case (offset_seconds c offset)
  then show ?case by (simp add: setTimeOffsetSeconds_def)
next
  case (offset_hours c hours)
  then show ?case by (simp add: setTimeOffsetHours_def)
next
  case (failed_exchange c le e tx c' e')
  from ntpExchange_failure[OF failed_exchange(2)] failed_exchange(3) show ?case by simp
qed

lemma getTimeMs_elapsed:
  fixes c :: "'l::len word client"
  assumes "lastUpdateMillis c \<noteq> 0" and "d < 2 ^ 32"
    and "shd (ticks e) = lastUpdateMillis c + of_nat d"
  shows "getTimeMs c e =
     (ucast (lastNtpTime c) * 1000 + of_nat d + scast (timeOffsetSeconds c) * 1000,
      e\<lparr>ticks := stl (ticks e)\<rparr>)"
proof -
  have "shd (ticks e) - lastUpdateMillis c = (of_nat d :: u32)"
    using assms(3) by simp
  moreover have "(ucast (of_nat d :: u32) :: u64) = of_nat d"
  proof -
    have "unat (of_nat d :: u32) = d" using assms(2) by (simp add: unat_of_nat)
    then have "(of_nat (unat (of_nat d :: u32)) :: u64) = of_nat d" by simp
    then show ?thesis by simp
  qed
  ultimately show ?thesis
    using assms(1) by (simp add: getTimeMs_def millis_def Let_def)
qed

section \<open>The exchanges of update\<close>

lemma era_seconds_wrap: "(2085978496 :: u32) + 2208988800 = 0"
proof -
  have "(2 :: 32 word) ^ LENGTH(32) = 0" by (rule word_exp_length_eq_0)
  then show ?thesis by simp
qed

lemma useOffset_second_exchange:
  "useOffset (t + 2208988800) \<longleftrightarrow> t \<noteq> 2085978496"
proof -
  have "t + 2208988800 = 0 \<longleftrightarrow> t = - 2208988800"
    by (simp add: add_eq_0_iff2)
  moreover have "(- 2208988800 :: u32) = 2085978496" by simp
  ultimately show ?thesis by (simp add: useOffset_def)
qed

lemma update_anchored:
  fixes c :: "'l::len word client"
  assumes "lastUpdateMillis c \<noteq> 0"
  shows "update le c e =
     ntpExchange le c (snd (getTimeSec c e)) (fst (getTimeSec c e) + 2208988800)"
  using assms
  by (simp add: update_def updateWithRTC_def NTP_EPOCH_DELTA_def Let_def case_prod_beta)

lemma update_bootstrapped:
  fixes c :: "'l::len word client"
  assumes "lastUpdateMillis c = 0" and "ntpExchange le c e 0 = Some (True, c1, e1)"
  shows "update le c e =
     ntpExchange le c1 (snd (getTimeSec c1 e1)) (fst (getTimeSec c1 e1) + 2208988800)"
  using assms
  by (simp add: update_def updateWithoutRTC_def updateWithRTC_def NTP_EPOCH_DELTA_def Let_def
      case_prod_beta)

lemma env_tick0_after_bootstrap:
  "ntpExchange True synced_at_tick0 env_tick0_after 0 =
     Some (True, synced_at_tick0\<lparr>lastUpdateMillis := 5000\<rparr>,
       env_tick0_after\<lparr>outbox := [packet_bytes True (request_packet True 0),
         packet_bytes True (request_packet True 0)]\<rparr>)"
  by (simp add: env_tick0_after_def ntpExchange_immediate read_response_bootstrap
      length_reply_with millis_def send_request_def udp_write_def udp_begin_def
      udp_parsePacket_def reply_with_fields NTP_EPOCH_DELTA_def synced_at_tick0_def)

lemma update_at_tick0_outbox:
  "map_option (outbox \<circ> snd \<circ> snd) (update True synced_at_tick0 env_tick0_after) =
     Some [packet_bytes True (request_packet True 0),
           packet_bytes True (request_packet True 0),
           packet_bytes True (request_packet True 3208988800)]"
proof -
  let ?c1 = "synced_at_tick0\<lparr>lastUpdateMillis := 5000\<rparr>"
  let ?e1 = "env_tick0_after\<lparr>outbox := [packet_bytes True (request_packet True 0),
         packet_bytes True (request_packet True 0)]\<rparr>"
  have z: "lastUpdateMillis synced_at_tick0 = 0" by (simp add: synced_at_tick0_def)
  have g: "getTimeSec ?c1 ?e1 = (1000000000, ?e1)"
    by (simp add: getTimeSec_def getTimeMs_def synced_at_tick0_def env_tick0_after_def
        millis_def Let_def)
  have p: "shd (polls ?e1) \<noteq> 0" by (simp add: env_tick0_after_def)
  have "update True synced_at_tick0 env_tick0_after = ntpExchange True ?c1 ?e1 3208988800"
    using update_bootstrapped[OF z env_tick0_after_bootstrap] by (simp add: g)
  also have "\<dots> = Some (read_response True ?c1
      (snd (udp_parsePacket (snd (millis (send_request True ?e1 3208988800)))))
      (shd (polls ?e1)) 3208988800)"
    by (rule ntpExchange_immediate[OF p])
  finally have u: "update True synced_at_tick0 env_tick0_after = Some (read_response True ?c1
      (snd (udp_parsePacket (snd (millis (send_request True ?e1 3208988800)))))
      (shd (polls ?e1)) 3208988800)" .
  have "map_option (outbox \<circ> snd \<circ> snd) (update True synced_at_tick0 env_tick0_after) =
      Some (outbox (snd (udp_parsePacket (snd (millis (send_request True ?e1 3208988800))))))"
    unfolding u by (simp add: read_response_outbox)
  then show ?thesis
    by (simp add: env_tick0_after_def millis_def
        send_request_def udp_write_def udp_begin_def udp_parsePacket_def)
qed

lemma update_at_era:
  "update True era_client env_era =
     Some (True, era_client\<lparr>lastNtpTime := 2085978506\<rparr>, env_era_after)"
proof -
  have nz: "lastUpdateMillis era_client \<noteq> 0" by (simp add: era_client_def)
  have g: "getTimeSec era_client env_era = (2085978496, env_era)"
    by (simp add: getTimeSec_def getTimeMs_def era_client_def env_era_def millis_def Let_def)
  have "update True era_client env_era = ntpExchange True era_client env_era 0"
    using update_anchored[OF nz, of True env_era] by (simp only: g fst_conv snd_conv era_seconds_wrap)
  also have "\<dots> = Some (True, era_client\<lparr>lastNtpTime := 2085978506\<rparr>, env_era_after)"
    by (simp add: env_era_def env_era_after_def ntpExchange_immediate read_response_bootstrap
        length_reply_with millis_def send_request_def udp_write_def udp_begin_def
        udp_parsePacket_def reply_with_fields NTP_EPOCH_DELTA_def era_client_def)
  finally show ?thesis .
qed

lemma update_behind:
  "update True (synced_client :: 32 word client) env_behind =
     Some (True, corrected_client, env_behind_after)"
proof -
  have nz: "lastUpdateMillis (synced_client :: 32 word client) \<noteq> 0"
    by (simp add: synced_client_def)
  have g: "getTimeSec (synced_client :: 32 word client) env_behind = (1000000001, env_behind)"
    by (simp add: getTimeSec_def getTimeMs_def synced_client_def env_behind_def millis_def Let_def)
  show ?thesis
    using update_anchored[OF nz, of True env_behind] by (simp add: g exchange_behind_long32)
qed

section \<open>The offset exchange on concrete replies\<close>

text \<open>
  The example of the specification: T1 = 1000, T2 = 1005, T3 = 1006 and a client whose
  estimate, converted to the NTP epoch, is T4 = 1001. The offset is 5 whatever the
  width of \<^verbatim>\<open>long\<close>, since both differences are positive.
\<close>

lemma spec_offset_example: "spec_offset 1000 1005 1006 1001 = 5"
  by (simp add: spec_offset_def signed_divide_int_def)

lemma offset_exchange_example_long32:
  "map_option (lastNtpTime \<circ> fst \<circ> snd)
     (ntpExchange True (example_client :: 32 word client) env_example 1000) =
   Some (1006 - 2208988800 + 5)"
  by (simp add: env_example_def ntpExchange_immediate millis_def send_request_def udp_write_def
      udp_begin_def udp_parsePacket_def read_response_offset length_reply_with reply_with_fields
      getTimeSec_def getTimeMs_def example_client_def Let_def NTP_EPOCH_DELTA_def long_div_def
      signed_divide_int_def)

lemma offset_exchange_example_long64:
  "map_option (lastNtpTime \<circ> fst \<circ> snd)
     (ntpExchange True (example_client :: 64 word client) env_example 1000) =
   Some (1006 - 2208988800 + 5)"
  by (simp add: env_example_def ntpExchange_immediate millis_def send_request_def udp_write_def
      udp_begin_def udp_parsePacket_def read_response_offset length_reply_with reply_with_fields
      getTimeSec_def getTimeMs_def example_client_def Let_def NTP_EPOCH_DELTA_def long_div_def
      signed_divide_int_def)

text \<open>
  Where \<^verbatim>\<open>long\<close> has 32 bits, the client that is one second ahead of the server
  keeps its time: the offset is \<open>(0 + (-1)) / 2 = 0\<close>.
\<close>

lemma offset_exchange_long32_client_ahead:
  "map_option (lastNtpTime \<circ> fst \<circ> snd)
     (ntpExchange True (synced_client :: 32 word client) env_ahead 3208988800) =
   Some 1000000000"
  by (simp add: env_ahead_def ntpExchange_immediate millis_def send_request_def udp_write_def
      udp_begin_def udp_parsePacket_def read_response_offset length_reply_with reply_with_fields
      getTimeSec_def getTimeMs_def synced_client_def Let_def NTP_EPOCH_DELTA_def long_div_def
      signed_divide_int_def)

section \<open>The claims\<close>

text \<open>
  Claim C1 (offset formula of the offset-correcting exchange). The claim holds where
  \<^verbatim>\<open>long\<close> has 32 bits and the sum does not overflow (\<open>anchor_long32_matches_spec\<close>).
  Where \<^verbatim>\<open>long\<close> has 64 bits, the cast \<^verbatim>\<open>(long)\<close> of a \<^verbatim>\<open>uint32_t\<close> difference
  does not sign-extend (\<open>anchor_long64_unsigned\<close>): for a client whose estimate T4 is one
  second ahead of the reply's T1 = T2 = T3 = 3208988800, the source computes the offset
  \<open>(0 + 4294967295) / 2 = 2147483647\<close> and installs the reference second 3147483647,
  where the formula of the claim gives offset 0 and reference second 1000000000.
\<close>

theorem offset_exchange_long64_client_ahead:
  "map_option (lastNtpTime \<circ> fst \<circ> snd)
     (ntpExchange True (synced_client :: 64 word client) env_ahead 3208988800) =
   Some 3147483647 \<and>
   fst (getTimeSec (synced_client :: 64 word client) env_ahead) + of_nat NTP_EPOCH_DELTA =
   3208988801 \<and>
   spec_referenceEpochSeconds 3208988800 3208988800 3208988800 3208988801 = 1000000000"
proof (intro conjI)
  show "map_option (lastNtpTime \<circ> fst \<circ> snd)
     (ntpExchange True (synced_client :: 64 word client) env_ahead 3208988800) =
   Some 3147483647"
    by (simp add: env_ahead_def ntpExchange_immediate millis_def send_request_def udp_write_def
        udp_begin_def udp_parsePacket_def read_response_offset length_reply_with
        reply_with_fields getTimeSec_def getTimeMs_def synced_client_def Let_def
        NTP_EPOCH_DELTA_def long_div_def signed_divide_int_def ucast_minus_1_u32_u64)
  show "fst (getTimeSec (synced_client :: 64 word client) env_ahead) + of_nat NTP_EPOCH_DELTA =
      3208988801"
    by (simp add: getTimeSec_def getTimeMs_def synced_client_def env_ahead_def millis_def
        Let_def NTP_EPOCH_DELTA_def)
  show "spec_referenceEpochSeconds 3208988800 3208988800 3208988800 3208988801 = 1000000000"
    by (simp add: spec_referenceEpochSeconds_def spec_offset_def NTP_EPOCH_DELTA_def
        signed_divide_int_def)
qed

text \<open>
  Claim C2, as amended (get-time in milliseconds). The operation returns 0 when no
  exchange has succeeded since the client was constructed or last reset, whatever
  offset was set and whatever exchanges failed; it returns 0 whenever the stored
  reference tick is 0, which is also the case after an exchange that succeeded at
  counter reading 0. When the reference tick is non-zero and \<open>d\<close> milliseconds have
  elapsed on the counter since the anchor was installed, it returns
  \<open>referenceEpochSeconds * 1000 + d + offsetSeconds * 1000\<close> as an unsigned 64-bit
  value, with the offset read as a signed value. The environment returned shows that
  nothing but the counter is touched: nothing is sent or received.
\<close>

theorem getTimeMs_value:
  fixes c :: "'l::len word client"
  shows
    "(never_synced c \<longrightarrow> getTimeMs c e = (0, e)) \<and>
     (lastUpdateMillis c = 0 \<longrightarrow> getTimeMs c e = (0, e)) \<and>
     (lastUpdateMillis c \<noteq> 0 \<and> d < 2 ^ 32 \<and> shd (ticks e) = lastUpdateMillis c + of_nat d \<longrightarrow>
        getTimeMs c e =
          (ucast (lastNtpTime c) * 1000 + of_nat d + scast (timeOffsetSeconds c) * 1000,
           e\<lparr>ticks := stl (ticks e)\<rparr>))"
proof (intro conjI impI)
  assume "never_synced c"
  then have "lastUpdateMillis c = 0" by (rule never_synced_tick)
  then show "getTimeMs c e = (0, e)" by (simp add: getTimeMs_def)
next
  assume "lastUpdateMillis c = 0"
  then show "getTimeMs c e = (0, e)" by (simp add: getTimeMs_def)
next
  assume "lastUpdateMillis c \<noteq> 0 \<and> d < 2 ^ 32 \<and> shd (ticks e) = lastUpdateMillis c + of_nat d"
  then show "getTimeMs c e =
          (ucast (lastNtpTime c) * 1000 + of_nat d + scast (timeOffsetSeconds c) * 1000,
           e\<lparr>ticks := stl (ticks e)\<rparr>)"
    by (intro getTimeMs_elapsed) simp_all
qed

text \<open>
  Witness for C2: a new client with offset 3600 seconds; a client that was reset; the
  client synchronised at counter reading 0; and a client with offset -3600 seconds, anchor second 1000000000
  installed at reading 4294967290 and asked at reading 4, ten milliseconds later.
\<close>

theorem getTimeMs_value_witness:
  "never_synced (setTimeOffsetSeconds (TinyNTPClient 6000 :: 32 word client) 3600) \<and>
   getTimeMs (setTimeOffsetSeconds (TinyNTPClient 6000 :: 32 word client) 3600) env_past_zero =
     (0, env_past_zero) \<and>
   never_synced (fst (endClient offset_client env_past_zero)) \<and>
   getTimeMs (fst (endClient offset_client env_past_zero)) env_past_zero = (0, env_past_zero) \<and>
   lastUpdateMillis synced_at_tick0 = 0 \<and>
   getTimeMs synced_at_tick0 env_tick0_after = (0, env_tick0_after) \<and>
   (lastUpdateMillis offset_client \<noteq> 0 \<and> (10 :: nat) < 2 ^ 32 \<and>
    shd (ticks env_past_zero) = lastUpdateMillis offset_client + of_nat 10) \<and>
   getTimeMs offset_client env_past_zero =
     (999996400010, env_past_zero\<lparr>ticks := stl (ticks env_past_zero)\<rparr>)"
proof -
  let ?n = "setTimeOffsetSeconds (TinyNTPClient 6000 :: 32 word client) 3600"
  have n: "never_synced ?n"
    by (intro never_synced.offset_seconds never_synced.constructed)
  have z: "lastUpdateMillis synced_at_tick0 = 0" by (simp add: synced_at_tick0_def)
  have h: "lastUpdateMillis offset_client \<noteq> 0 \<and> (10 :: nat) < 2 ^ 32 \<and>
      shd (ticks env_past_zero) = lastUpdateMillis offset_client + of_nat 10"
    by (simp add: offset_client_def env_past_zero_def)
  let ?r = "fst (endClient offset_client env_past_zero)"
  have n': "never_synced ?r" by (rule never_synced.ended)
  note t1 = getTimeMs_value[where c = ?n and e = env_past_zero]
  note t1' = getTimeMs_value[where c = ?r and e = env_past_zero]
  note t2 = getTimeMs_value[where c = synced_at_tick0 and e = env_tick0_after]
  note t3 = getTimeMs_value[where c = offset_client and e = env_past_zero and d = 10]
  from t1 n have r1: "getTimeMs ?n env_past_zero = (0, env_past_zero)" by blast
  from t1' n' have r1': "getTimeMs ?r env_past_zero = (0, env_past_zero)" by blast
  from t2 z have r2: "getTimeMs synced_at_tick0 env_tick0_after = (0, env_tick0_after)" by blast
  from t3 h have "getTimeMs offset_client env_past_zero =
      (ucast (lastNtpTime offset_client) * 1000 + of_nat 10 +
         scast (timeOffsetSeconds offset_client) * 1000,
       env_past_zero\<lparr>ticks := stl (ticks env_past_zero)\<rparr>)"
    by blast
  then have r3: "getTimeMs offset_client env_past_zero =
      (999996400010, env_past_zero\<lparr>ticks := stl (ticks env_past_zero)\<rparr>)"
    by (simp add: offset_client_def)
  from n r1 n' r1' z r2 h r3 show ?thesis by blast
qed

text \<open>
  Counterexample to C2 as stated: the bootstrap exchange succeeds while the counter
  reads 0 and installs the reference second 1000000000; 5000 ms later a sync has
  succeeded, yet get-time returns 0 and not
  \<open>1000000000 * 1000 + 5000 + 0 = 1000000005000\<close>.
\<close>

theorem getTimeMs_zero_after_sync_at_tick0:
  "ntpExchange True (TinyNTPClient 6000) env_tick0 0 =
     Some (True, synced_at_tick0, env_tick0_after) \<and>
   fst (getTimeMs synced_at_tick0 env_tick0_after) = 0 \<and>
   (ucast (lastNtpTime synced_at_tick0) * 1000 +
    ucast (shd (ticks env_tick0_after) - lastUpdateMillis synced_at_tick0) +
    scast (timeOffsetSeconds synced_at_tick0) * 1000 :: u64) = 1000000005000"
  by (simp add: exchange_at_tick0 getTimeMs_def synced_at_tick0_def env_tick0_after_def)

text \<open>
  Claim C3, as amended (the two phases of sync). \<open>update\<close> tests the stored reference
  tick. When the tick is 0, \<open>update\<close> first performs the exchange with transmit
  seconds 0; if that fails, \<open>update\<close> fails, the client is unchanged and exactly one
  request was sent. If it succeeds, \<open>update\<close> is the exchange with transmit seconds =
  current estimate + 2208988800 modulo \<open>2 ^ 32\<close> on the bootstrapped client; if that
  one fails, \<open>update\<close> fails and the client is the bootstrapped one. When the tick is
  non-zero, \<open>update\<close> is that second exchange alone, and exactly one request is sent;
  if it succeeds, the new client is the old one with the reference tick taken on
  arrival of the reply and the reference second computed from the buffer read: the
  offset-corrected value, unless the estimate is 2085978496, where the transmit seconds
  of the request are 0 and the reply's transmit second is assigned directly. An
  exchange is offset-correcting exactly when its transmit seconds are non-zero.
\<close>

theorem update_two_phase:
  fixes c :: "'l::len word client"
  shows
    "(lastUpdateMillis c = 0 \<and> ntpExchange le c e 0 = Some (False, c1, e1) \<longrightarrow>
        update le c e = Some (False, c, e1) \<and> c1 = c \<and>
        outbox e1 = outbox e @ [packet_bytes le (request_packet le 0)]) \<and>
     (lastUpdateMillis c = 0 \<and> ntpExchange le c e 0 = Some (True, c1, e1) \<longrightarrow>
        update le c e =
          ntpExchange le c1 (snd (getTimeSec c1 e1)) (fst (getTimeSec c1 e1) + 2208988800)) \<and>
     (lastUpdateMillis c = 0 \<and> ntpExchange le c e 0 = Some (True, c1, e1) \<and>
      ntpExchange le c1 (snd (getTimeSec c1 e1)) (fst (getTimeSec c1 e1) + 2208988800) =
        Some (False, c2, e2) \<longrightarrow>
        update le c e = Some (False, c1, e2) \<and> c2 = c1) \<and>
     (lastUpdateMillis c \<noteq> 0 \<longrightarrow>
        update le c e =
          ntpExchange le c (snd (getTimeSec c e)) (fst (getTimeSec c e) + 2208988800)) \<and>
     (lastUpdateMillis c \<noteq> 0 \<and> update le c e = Some (ok, c2, e2) \<longrightarrow>
        outbox e2 = outbox e @
          [packet_bytes le (request_packet le (fst (getTimeSec c e) + 2208988800))]) \<and>
     (lastUpdateMillis c \<noteq> 0 \<and> update le c e = Some (True, c3, e3) \<longrightarrow>
        (\<exists>packetSize e4 n buf e5.
           wait_response
             (snd (millis (send_request le (snd (getTimeSec c e))
                (fst (getTimeSec c e) + 2208988800))))
             (shd (ticks (snd (getTimeSec c e))) + timeoutMs c) = Some (Some packetSize, e4) \<and>
           read_loop (snd (millis e4)) (packet_bytes le NTPPacket_zero) 0 = (n, buf, e5) \<and>
           c3 = c\<lparr>lastNtpTime :=
                    (if fst (getTimeSec c e) = 2085978496 then be32 buf 40 - 2208988800
                     else ucast (ucast (be32 buf 40) - 2208988800 +
                            long_div
                              (ucast (be32 buf 32 - be32 buf 24) +
                               ucast (be32 buf 40 - (fst (getTimeSec c e5) + 2208988800)))
                              (2 :: 'l word))),
                  lastUpdateMillis := shd (ticks e4)\<rparr>)) \<and>
     \<not> useOffset 0 \<and>
     (useOffset (t + 2208988800) \<longleftrightarrow> t \<noteq> 2085978496)"
proof (intro conjI impI)
  assume a: "lastUpdateMillis c = 0 \<and> ntpExchange le c e 0 = Some (False, c1, e1)"
  then have c1: "c1 = c" using ntpExchange_failure by blast
  from a c1 show "update le c e = Some (False, c, e1)"
    by (simp add: update_def updateWithoutRTC_def)
  from c1 show "c1 = c" .
  from a ntpExchange_outbox show "outbox e1 = outbox e @ [packet_bytes le (request_packet le 0)]"
    by blast
next
  assume a: "lastUpdateMillis c = 0 \<and> ntpExchange le c e 0 = Some (True, c1, e1)"
  then show "update le c e =
      ntpExchange le c1 (snd (getTimeSec c1 e1)) (fst (getTimeSec c1 e1) + 2208988800)"
    using update_bootstrapped by blast
next
  assume a: "lastUpdateMillis c = 0 \<and> ntpExchange le c e 0 = Some (True, c1, e1) \<and>
      ntpExchange le c1 (snd (getTimeSec c1 e1)) (fst (getTimeSec c1 e1) + 2208988800) =
        Some (False, c2, e2)"
  then have c2: "c2 = c1" using ntpExchange_failure by blast
  from a c2 show "update le c e = Some (False, c1, e2)"
    by (simp add: update_def updateWithoutRTC_def updateWithRTC_def NTP_EPOCH_DELTA_def Let_def
        case_prod_beta)
  from c2 show "c2 = c1" .
next
  assume a: "lastUpdateMillis c \<noteq> 0"
  then show "update le c e =
      ntpExchange le c (snd (getTimeSec c e)) (fst (getTimeSec c e) + 2208988800)"
    by (rule update_anchored)
next
  assume a: "lastUpdateMillis c \<noteq> 0 \<and> update le c e = Some (ok, c2, e2)"
  then have nz: "lastUpdateMillis c \<noteq> 0" and u: "update le c e = Some (ok, c2, e2)"
    by simp_all
  from u update_anchored[OF nz, of le e]
  have "ntpExchange le c (snd (getTimeSec c e)) (fst (getTimeSec c e) + 2208988800)
      = Some (ok, c2, e2)" by simp
  from ntpExchange_outbox[OF this] show "outbox e2 = outbox e @
      [packet_bytes le (request_packet le (fst (getTimeSec c e) + 2208988800))]"
    by (simp add: getTimeSec_frame)
next
  assume a: "lastUpdateMillis c \<noteq> 0 \<and> update le c e = Some (True, c3, e3)"
  then have nz: "lastUpdateMillis c \<noteq> 0" and u: "update le c e = Some (True, c3, e3)"
    by simp_all
  let ?t = "fst (getTimeSec c e)"
  let ?tx = "?t + 2208988800"
  let ?e0 = "snd (getTimeSec c e)"
  from u update_anchored[OF nz, of le e]
  have x: "ntpExchange le c ?e0 ?tx = Some (True, c3, e3)" by simp
  have tx0: "?tx = 0 \<longleftrightarrow> ?t = 2085978496"
    using useOffset_second_exchange[of ?t] by (simp add: useOffset_def)
  from x show "\<exists>packetSize e4 n buf e5.
           wait_response (snd (millis (send_request le ?e0 ?tx)))
             (shd (ticks ?e0) + timeoutMs c) = Some (Some packetSize, e4) \<and>
           read_loop (snd (millis e4)) (packet_bytes le NTPPacket_zero) 0 = (n, buf, e5) \<and>
           c3 = c\<lparr>lastNtpTime :=
                    (if ?t = 2085978496 then be32 buf 40 - 2208988800
                     else ucast (ucast (be32 buf 40) - 2208988800 +
                            long_div
                              (ucast (be32 buf 32 - be32 buf 24) +
                               ucast (be32 buf 40 - (fst (getTimeSec c e5) + 2208988800)))
                              (2 :: 'l word))),
                  lastUpdateMillis := shd (ticks e4)\<rparr>"
  proof (cases rule: ntpExchange_cases)
    case (timeout e4)
    then show ?thesis by simp
  next
    case (reply packetSize e4)
    obtain n buf e5 where
      rl: "read_loop (snd (millis e4)) (packet_bytes le NTPPacket_zero) 0 = (n, buf, e5)"
      by (cases "read_loop (snd (millis e4)) (packet_bytes le NTPPacket_zero) 0")
    from reply(2) have "fst (read_response le c e4 packetSize ?tx)" by simp
    then have s: "48 \<le> packetSize" "48 \<le> n"
      using rl by (simp_all add: read_response_ok_iff sizeof_NTPPacket_def)
    from read_response_result[OF rl s, of c ?tx] reply(2)
    have "c3 = c\<lparr>lastNtpTime :=
                    (if ?tx = 0 then be32 buf 40 - 2208988800
                     else ucast (ucast (be32 buf 40) - 2208988800 +
                            long_div
                              (ucast (be32 buf 32 - be32 buf 24) +
                               ucast (be32 buf 40 - (fst (getTimeSec c e5) + 2208988800)))
                              (2 :: 'l word))),
                  lastUpdateMillis := shd (ticks e4)\<rparr>"
      by simp
    then have "c3 = c\<lparr>lastNtpTime :=
                    (if ?t = 2085978496 then be32 buf 40 - 2208988800
                     else ucast (ucast (be32 buf 40) - 2208988800 +
                            long_div
                              (ucast (be32 buf 32 - be32 buf 24) +
                               ucast (be32 buf 40 - (fst (getTimeSec c e5) + 2208988800)))
                              (2 :: 'l word))),
                  lastUpdateMillis := shd (ticks e4)\<rparr>"
      unfolding tx0 .
    with reply(1) rl show ?thesis by blast
  qed
next
  show "\<not> useOffset 0" by (simp add: useOffset_def)
next
  show "useOffset (t + 2208988800) \<longleftrightarrow> t \<noteq> 2085978496" by (rule useOffset_second_exchange)
qed

text \<open>
  Witness for C3: a bootstrap that times out on a silent transport; a bootstrap that
  succeeds followed by a second exchange that times out; a client with a non-zero
  reference tick, for which \<open>update\<close> is the second exchange alone; and such a client
  whose single exchange succeeds and corrects the reference second from 1000000000 to
  1000000021.
\<close>

theorem update_two_phase_witness:
  "(lastUpdateMillis (TinyNTPClient 6000 :: 32 word client) = 0 \<and>
    ntpExchange True (TinyNTPClient 6000 :: 32 word client) env_silent 0 =
      Some (False, TinyNTPClient 6000, env_silent_after) \<and>
    update True (TinyNTPClient 6000 :: 32 word client) env_silent =
      Some (False, TinyNTPClient 6000, env_silent_after)) \<and>
   (ntpExchange True (TinyNTPClient 6000) env_boot_then_silent 0 =
      Some (True, bootstrapped_client, env_bootstrapped) \<and>
    ntpExchange True bootstrapped_client (snd (getTimeSec bootstrapped_client env_bootstrapped))
      (fst (getTimeSec bootstrapped_client env_bootstrapped) + 2208988800) =
      Some (False, bootstrapped_client, env_boot_final) \<and>
    update True (TinyNTPClient 6000) env_boot_then_silent =
      Some (False, bootstrapped_client, env_boot_final)) \<and>
   (lastUpdateMillis (synced_client :: 32 word client) \<noteq> 0 \<and>
    update True (synced_client :: 32 word client) env_ahead =
      ntpExchange True synced_client (env_ahead\<lparr>ticks := sconst 1001\<rparr>) 3208988801) \<and>
   (update True (synced_client :: 32 word client) env_behind =
      Some (True, corrected_client, env_behind_after) \<and>
    fst (getTimeSec (synced_client :: 32 word client) env_behind) = 1000000001 \<and>
    outbox env_behind_after =
      outbox env_behind @ [packet_bytes True (request_packet True 3208988801)] \<and>
    (\<exists>packetSize e4 n buf e5.
       wait_response
         (snd (millis (send_request True
            (snd (getTimeSec (synced_client :: 32 word client) env_behind)) 3208988801)))
         (shd (ticks (snd (getTimeSec (synced_client :: 32 word client) env_behind))) + 6000) =
         Some (Some packetSize, e4) \<and>
       read_loop (snd (millis e4)) (packet_bytes True NTPPacket_zero) 0 = (n, buf, e5) \<and>
       corrected_client =
         synced_client\<lparr>lastNtpTime :=
             ucast (ucast (be32 buf 40) - 2208988800 +
               long_div
                 (ucast (be32 buf 32 - be32 buf 24) +
                  ucast (be32 buf 40 -
                    (fst (getTimeSec (synced_client :: 32 word client) e5) + 2208988800)))
                 (2 :: 32 word)),
           lastUpdateMillis := shd (ticks e4)\<rparr>)) \<and>
   useOffset (1000000001 + 2208988800) \<and> \<not> useOffset (2085978496 + 2208988800)"
proof -
  let ?c0 = "TinyNTPClient 6000 :: 32 word client"
  let ?s = "synced_client :: 32 word client"
  have z: "lastUpdateMillis ?c0 = 0" by (simp add: TinyNTPClient_def)
  note a = silent_bootstrap_fails
  note b1 = boot_then_silent_first
  have b2: "ntpExchange True bootstrapped_client
      (snd (getTimeSec bootstrapped_client env_bootstrapped))
      (fst (getTimeSec bootstrapped_client env_bootstrapped) + 2208988800) =
      Some (False, bootstrapped_client, env_boot_final)"
    by (simp add: boot_then_silent_estimate boot_then_silent_second)
  have nz: "lastUpdateMillis ?s \<noteq> 0"
    by (simp add: synced_client_def)
  have g: "getTimeSec ?s env_ahead = (1000000001, env_ahead\<lparr>ticks := sconst 1001\<rparr>)"
    by (simp add: getTimeSec_def getTimeMs_def synced_client_def env_ahead_def millis_def Let_def)
  have g': "fst (getTimeSec ?s env_behind) = 1000000001"
    by (simp add: getTimeSec_def getTimeMs_def synced_client_def env_behind_def millis_def Let_def)
  have tm: "timeoutMs ?s = 6000" by (simp add: synced_client_def)
  note ub = update_behind
  note t1 = update_two_phase[where c = ?c0 and le = True and e = env_silent
      and ?c1.0 = ?c0 and ?e1.0 = env_silent_after]
  note t2 = update_two_phase[where c = ?c0 and le = True and e = env_boot_then_silent
      and ?c1.0 = bootstrapped_client and ?e1.0 = env_bootstrapped
      and ?c2.0 = bootstrapped_client and ?e2.0 = env_boot_final]
  note t3 = update_two_phase[where c = ?s and le = True and e = env_ahead]
  note t4 = update_two_phase[where c = ?s and le = True and e = env_behind
      and ok = True and ?c2.0 = corrected_client and ?e2.0 = env_behind_after
      and ?c3.0 = corrected_client and ?e3.0 = env_behind_after and t = 1000000001]
  note t5 = update_two_phase[where c = ?s and t = 2085978496]
  have r1: "update True ?c0 env_silent = Some (False, ?c0, env_silent_after)"
    using t1 z a by blast
  have r2: "update True ?c0 env_boot_then_silent = Some (False, bootstrapped_client, env_boot_final)"
    using t2 z b1 b2 by blast
  have r3: "update True ?s env_ahead =
      ntpExchange True synced_client (env_ahead\<lparr>ticks := sconst 1001\<rparr>) 3208988801"
    using t3 nz g by simp
  from t4 nz ub have r4: "outbox env_behind_after =
      outbox env_behind @
        [packet_bytes True (request_packet True (fst (getTimeSec ?s env_behind) + 2208988800))]"
    by blast
  then have r4': "outbox env_behind_after =
      outbox env_behind @ [packet_bytes True (request_packet True 3208988801)]"
    by (simp add: g')
  from t4 nz ub have "\<exists>packetSize e4 n buf e5.
           wait_response
             (snd (millis (send_request True (snd (getTimeSec ?s env_behind))
                (fst (getTimeSec ?s env_behind) + 2208988800))))
             (shd (ticks (snd (getTimeSec ?s env_behind))) + timeoutMs ?s) =
             Some (Some packetSize, e4) \<and>
           read_loop (snd (millis e4)) (packet_bytes True NTPPacket_zero) 0 = (n, buf, e5) \<and>
           corrected_client = ?s\<lparr>lastNtpTime :=
                    (if fst (getTimeSec ?s env_behind) = 2085978496
                     then be32 buf 40 - 2208988800
                     else ucast (ucast (be32 buf 40) - 2208988800 +
                            long_div
                              (ucast (be32 buf 32 - be32 buf 24) +
                               ucast (be32 buf 40 - (fst (getTimeSec ?s e5) + 2208988800)))
                              (2 :: 32 word))),
                  lastUpdateMillis := shd (ticks e4)\<rparr>"
    by blast
  then have r5: "\<exists>packetSize e4 n buf e5.
       wait_response
         (snd (millis (send_request True (snd (getTimeSec ?s env_behind)) 3208988801)))
         (shd (ticks (snd (getTimeSec ?s env_behind))) + 6000) =
         Some (Some packetSize, e4) \<and>
       read_loop (snd (millis e4)) (packet_bytes True NTPPacket_zero) 0 = (n, buf, e5) \<and>
       corrected_client =
         ?s\<lparr>lastNtpTime :=
             ucast (ucast (be32 buf 40) - 2208988800 +
               long_div
                 (ucast (be32 buf 32 - be32 buf 24) +
                  ucast (be32 buf 40 - (fst (getTimeSec ?s e5) + 2208988800)))
                 (2 :: 32 word)),
           lastUpdateMillis := shd (ticks e4)\<rparr>"
    by (simp add: g' tm)
  from t4 have r6: "useOffset (1000000001 + 2208988800)" by simp
  from t5 have r7: "\<not> useOffset (2085978496 + 2208988800)" by blast
  from z a r1 b1 b2 r2 nz r3 ub g' r4' r5 r6 r7 show ?thesis by blast
qed

text \<open>
  Counterexample to C3 as stated. First, the bootstrap exchange succeeds while the
  counter reads 0 and installs the reference second 1000000000 with reference tick 0:
  an anchor exists, yet the next \<open>update\<close> sends a bootstrap request, with transmit
  seconds 0, before the request with transmit seconds 3208988800. Second, a client with
  a non-zero reference tick whose estimate is 2085978496: the only exchange of \<open>update\<close>
  has transmit seconds 0 and stores the reply's transmit second, 2085978506, where the
  offset formula gives 2085978516.
\<close>

theorem update_bootstraps_again_after_sync_at_tick0:
  "ntpExchange True (TinyNTPClient 6000) env_tick0 0 =
     Some (True, synced_at_tick0, env_tick0_after) \<and>
   lastNtpTime synced_at_tick0 = 1000000000 \<and>
   outbox env_tick0_after = [packet_bytes True (request_packet True 0)] \<and>
   map_option (outbox \<circ> snd \<circ> snd) (update True synced_at_tick0 env_tick0_after) =
     Some [packet_bytes True (request_packet True 0),
           packet_bytes True (request_packet True 0),
           packet_bytes True (request_packet True 3208988800)] \<and>
   lastUpdateMillis era_client \<noteq> 0 \<and>
   getTimeSec era_client env_era = (2085978496, env_era) \<and>
   update True era_client env_era =
     Some (True, era_client\<lparr>lastNtpTime := 2085978506\<rparr>, env_era_after) \<and>
   outbox env_era_after = [packet_bytes True (request_packet True 0)] \<and>
   spec_referenceEpochSeconds 0 10 10 0 = 2085978516"
proof -
  have g: "getTimeSec era_client env_era = (2085978496, env_era)"
    by (simp add: getTimeSec_def getTimeMs_def era_client_def env_era_def millis_def Let_def)
  have s: "spec_referenceEpochSeconds 0 10 10 0 = 2085978516"
    by (simp add: spec_referenceEpochSeconds_def spec_offset_def NTP_EPOCH_DELTA_def
        signed_divide_int_def)
  show ?thesis
    by (simp add: exchange_at_tick0 update_at_tick0_outbox update_at_era g s)
      (simp add: synced_at_tick0_def env_tick0_after_def era_client_def env_era_after_def)
qed

text \<open>
  Claim C4, as amended (the request packet). For every transmitSeconds the 48 bytes
  sent are the flags byte \<open>0xDB\<close>, 39 zero bytes, transmitSeconds in network byte
  order (whatever the host's byte order) and 4 zero bytes for the transmit fraction;
  the flags byte encodes leap indicator 3, version 3 and mode 3 (client).
\<close>

theorem request_packet_wire:
  "packet_bytes le (request_packet le tx) = 0xDB # replicate 39 0 @ be_bytes tx @ replicate 4 0 \<and>
   outbox (send_request le e tx) = outbox e @ [packet_bytes le (request_packet le tx)] \<and>
   leap_indicator (li_vn_mode (request_packet le tx)) = 3 \<and>
   version_number (li_vn_mode (request_packet le tx)) = 3 \<and>
   mode_number (li_vn_mode (request_packet le tx)) = 3"
proof (intro conjI)
  show "packet_bytes le (request_packet le tx) =
      0xDB # replicate 39 0 @ be_bytes tx @ replicate 4 0"
    by (rule request_bytes)
  show "outbox (send_request le e tx) = outbox e @ [packet_bytes le (request_packet le tx)]"
    by (simp add: send_request_def udp_write_def udp_begin_def)
  show "leap_indicator (li_vn_mode (request_packet le tx)) = 3"
    by (simp add: request_packet_def leap_indicator_def)
  show "version_number (li_vn_mode (request_packet le tx)) = 3"
    by (simp add: request_packet_def version_number_def)
  show "mode_number (li_vn_mode (request_packet le tx)) = 3"
    by (simp add: request_packet_def mode_number_def)
qed

text \<open>
  Counterexample to C4 as stated: the leap indicator of the request is not 0.
\<close>

theorem request_leap_indicator_not_zero:
  "leap_indicator (li_vn_mode (request_packet True 0)) \<noteq> 0"
  by (simp add: request_packet_def leap_indicator_def)

text \<open>
  Claim C5 (the anchor is replaced as a whole or not at all). Whenever \<open>ntpExchange\<close>
  returns failure, for whatever reason, the whole client state is the one before the
  exchange. Whenever it returns success, a datagram had arrived, the reading loop
  filled the buffer \<open>buf\<close>, and the new client is the old one with both fields of the
  anchor replaced: the reference second by the value computed from \<open>buf\<close> (the reply's
  transmit second minus 2208988800 for transmit seconds 0, that value plus the halved
  sum of the two differences otherwise) and the reference tick by the counter reading
  taken on arrival of the datagram. Nothing else changes.
\<close>

theorem ntpExchange_anchor_atomic:
  fixes c :: "'l::len word client"
  assumes "ntpExchange le c e tx = Some (ok, c', e')"
  shows "(\<not> ok \<longrightarrow> c' = c) \<and>
         (ok \<longrightarrow>
            (\<exists>packetSize e3 n buf e4.
               wait_response (snd (millis (send_request le e tx)))
                 (shd (ticks e) + timeoutMs c) = Some (Some packetSize, e3) \<and>
               read_loop (snd (millis e3)) (packet_bytes le NTPPacket_zero) 0 = (n, buf, e4) \<and>
               c' = c\<lparr>lastNtpTime :=
                        (if tx = 0 then be32 buf 40 - 2208988800
                         else ucast (ucast (be32 buf 40) - 2208988800 +
                                long_div
                                  (ucast (be32 buf 32 - be32 buf 24) +
                                   ucast (be32 buf 40 - (fst (getTimeSec c e4) + 2208988800)))
                                  (2 :: 'l word))),
                      lastUpdateMillis := shd (ticks e3)\<rparr>))"
  using assms
proof (cases rule: ntpExchange_cases)
  case (timeout e3)
  then show ?thesis by simp
next
  case (reply packetSize e3)
  show ?thesis
  proof (cases ok)
    case False
    with reply(2) show ?thesis by (simp add: read_response_failure)
  next
    case True
    obtain n buf e4 where
      rl: "read_loop (snd (millis e3)) (packet_bytes le NTPPacket_zero) 0 = (n, buf, e4)"
      by (cases "read_loop (snd (millis e3)) (packet_bytes le NTPPacket_zero) 0")
    from True reply(2) have "fst (read_response le c e3 packetSize tx)" by simp
    then have s: "48 \<le> packetSize" "48 \<le> n"
      using rl by (simp_all add: read_response_ok_iff sizeof_NTPPacket_def)
    from read_response_result[OF rl s, of c tx] reply(2)
    have "c' = c\<lparr>lastNtpTime :=
                        (if tx = 0 then be32 buf 40 - 2208988800
                         else ucast (ucast (be32 buf 40) - 2208988800 +
                                long_div
                                  (ucast (be32 buf 32 - be32 buf 24) +
                                   ucast (be32 buf 40 - (fst (getTimeSec c e4) + 2208988800)))
                                  (2 :: 'l word))),
                      lastUpdateMillis := shd (ticks e3)\<rparr>"
      by simp
    with reply(1) rl True show ?thesis by blast
  qed
qed

text \<open>
  Witness for C5: an exchange that fails on a 20-byte datagram and leaves the client as
  it was, and an offset-correcting exchange that succeeds and replaces both fields: the
  reference second 1000000000 by 1000000021 and the reference tick 1 by 1001.
\<close>

theorem ntpExchange_anchor_atomic_witness:
  "ntpExchange True (synced_client :: 32 word client) env_short 3208988801 =
     Some (False, synced_client, env_short_after) \<and>
   ntpExchange True (synced_client :: 32 word client) env_behind 3208988801 =
     Some (True, corrected_client, env_behind_after) \<and>
   lastNtpTime (synced_client :: 32 word client) \<noteq> lastNtpTime corrected_client \<and>
   lastUpdateMillis (synced_client :: 32 word client) \<noteq> lastUpdateMillis corrected_client \<and>
   (\<exists>packetSize e3 n buf e4.
      wait_response (snd (millis (send_request True env_behind 3208988801)))
        (shd (ticks env_behind) + timeoutMs (synced_client :: 32 word client)) =
        Some (Some packetSize, e3) \<and>
      read_loop (snd (millis e3)) (packet_bytes True NTPPacket_zero) 0 = (n, buf, e4) \<and>
      corrected_client =
        synced_client\<lparr>lastNtpTime :=
            ucast (ucast (be32 buf 40) - 2208988800 +
              long_div
                (ucast (be32 buf 32 - be32 buf 24) +
                 ucast (be32 buf 40 -
                   (fst (getTimeSec (synced_client :: 32 word client) e4) + 2208988800)))
                (2 :: 32 word)),
          lastUpdateMillis := shd (ticks e3)\<rparr>)"
proof -
  note f = short_datagram_fails
  note s = exchange_behind_long32
  have d: "lastNtpTime (synced_client :: 32 word client) \<noteq> lastNtpTime corrected_client"
    "lastUpdateMillis (synced_client :: 32 word client) \<noteq> lastUpdateMillis corrected_client"
    by (simp_all add: synced_client_def corrected_client_def)
  from ntpExchange_anchor_atomic[OF s] f s d show ?thesis by simp
qed

text \<open>
  Claim C6, as amended (rollover of the monotonic counter). For a non-zero reference
  tick: when \<open>d\<close> milliseconds, fewer than \<open>2 ^ 32\<close>, have elapsed since the anchor was
  installed, the counter reads the reference tick plus \<open>d\<close> modulo \<open>2 ^ 32\<close>; the
  32-bit unsigned subtraction gives back exactly \<open>d\<close>, also across the rollover;
  get-time in milliseconds is its value at the reference reading plus \<open>d\<close>, and
  get-time in seconds is that number of milliseconds divided by 1000. For the reference
  tick 0 no elapsed time is computed: both operations return 0 at every counter
  reading.
\<close>

theorem getTimeMs_rollover:
  fixes c :: "'l::len word client"
  shows
    "(lastUpdateMillis c \<noteq> 0 \<and> d < 2 ^ 32 \<and> shd (ticks e) = lastUpdateMillis c + of_nat d \<longrightarrow>
        unat (shd (ticks e) - lastUpdateMillis c) = d \<and>
        fst (getTimeMs c e) =
          fst (getTimeMs c (e\<lparr>ticks := lastUpdateMillis c ## ticks e\<rparr>)) + of_nat d \<and>
        fst (getTimeMs c e) =
          ucast (lastNtpTime c) * 1000 + of_nat d + scast (timeOffsetSeconds c) * 1000 \<and>
        fst (getTimeSec c e) =
          ucast ((ucast (lastNtpTime c) * 1000 + of_nat d + scast (timeOffsetSeconds c) * 1000
                  :: u64) div 1000)) \<and>
     (lastUpdateMillis c = 0 \<longrightarrow> fst (getTimeMs c e) = 0 \<and> fst (getTimeSec c e) = 0)"
proof (intro conjI impI)
  assume a: "lastUpdateMillis c \<noteq> 0 \<and> d < 2 ^ 32 \<and>
      shd (ticks e) = lastUpdateMillis c + of_nat d"
  then have nz: "lastUpdateMillis c \<noteq> 0" and d: "d < 2 ^ 32"
    and t: "shd (ticks e) = lastUpdateMillis c + of_nat d"
    by simp_all
  have "shd (ticks e) - lastUpdateMillis c = (of_nat d :: u32)"
    using t by simp
  moreover have "unat (of_nat d :: u32) = d"
    using d by (simp add: unat_of_nat)
  ultimately show "unat (shd (ticks e) - lastUpdateMillis c) = d" by simp
  have "shd (ticks (e\<lparr>ticks := lastUpdateMillis c ## ticks e\<rparr>)) =
      lastUpdateMillis c + of_nat 0"
    by simp
  from getTimeMs_elapsed[OF nz _ this]
  have r: "fst (getTimeMs c (e\<lparr>ticks := lastUpdateMillis c ## ticks e\<rparr>)) =
      ucast (lastNtpTime c) * 1000 + scast (timeOffsetSeconds c) * 1000"
    by simp
  from getTimeMs_elapsed[OF nz d t]
  show v: "fst (getTimeMs c e) =
      ucast (lastNtpTime c) * 1000 + of_nat d + scast (timeOffsetSeconds c) * 1000"
    by simp
  from r v show "fst (getTimeMs c e) =
      fst (getTimeMs c (e\<lparr>ticks := lastUpdateMillis c ## ticks e\<rparr>)) + of_nat d"
    by simp
  from v show "fst (getTimeSec c e) =
      ucast ((ucast (lastNtpTime c) * 1000 + of_nat d + scast (timeOffsetSeconds c) * 1000
              :: u64) div 1000)"
    by (simp add: getTimeSec_def case_prod_beta)
next
  assume "lastUpdateMillis c = 0"
  then show "fst (getTimeMs c e) = 0" and "fst (getTimeSec c e) = 0"
    by (simp_all add: getTimeSec_def getTimeMs_def)
qed

text \<open>
  Witness for C6: the anchor at reading 4294967290, the query at reading 4, ten
  milliseconds later; and the anchor installed at reading 0.
\<close>

theorem getTimeMs_rollover_witness:
  "(lastUpdateMillis near_rollover_client \<noteq> 0 \<and> (10 :: nat) < 2 ^ 32 \<and>
    shd (ticks env_past_zero) = lastUpdateMillis near_rollover_client + of_nat 10) \<and>
   lastUpdateMillis near_rollover_client = 4294967290 \<and>
   shd (ticks env_past_zero) = 4 \<and>
   unat (shd (ticks env_past_zero) - lastUpdateMillis near_rollover_client) = 10 \<and>
   fst (getTimeMs near_rollover_client env_past_zero) =
     fst (getTimeMs near_rollover_client
       (env_past_zero\<lparr>ticks := lastUpdateMillis near_rollover_client ## ticks env_past_zero\<rparr>))
     + 10 \<and>
   fst (getTimeMs near_rollover_client env_past_zero) = 1000000000010 \<and>
   fst (getTimeSec near_rollover_client env_past_zero) = 1000000000 \<and>
   lastUpdateMillis synced_at_tick0 = 0 \<and>
   fst (getTimeMs synced_at_tick0 env_tick0_after) = 0 \<and>
   fst (getTimeSec synced_at_tick0 env_tick0_after) = 0"
proof -
  have h: "lastUpdateMillis near_rollover_client \<noteq> 0 \<and> (10 :: nat) < 2 ^ 32 \<and>
      shd (ticks env_past_zero) = lastUpdateMillis near_rollover_client + of_nat 10"
    by (simp add: near_rollover_client_def env_past_zero_def)
  have k: "lastUpdateMillis near_rollover_client = 4294967290" "shd (ticks env_past_zero) = 4"
    by (simp_all add: near_rollover_client_def env_past_zero_def)
  have z: "lastUpdateMillis synced_at_tick0 = 0" by (simp add: synced_at_tick0_def)
  note t = getTimeMs_rollover[where c = near_rollover_client and e = env_past_zero and d = 10]
  note t0 = getTimeMs_rollover[where c = synced_at_tick0 and e = env_tick0_after]
  from t h have u: "unat (shd (ticks env_past_zero) - lastUpdateMillis near_rollover_client) = 10"
    by blast
  from t h have a: "fst (getTimeMs near_rollover_client env_past_zero) =
     fst (getTimeMs near_rollover_client
       (env_past_zero\<lparr>ticks := lastUpdateMillis near_rollover_client ## ticks env_past_zero\<rparr>))
     + of_nat 10"
    by blast
  then have a': "fst (getTimeMs near_rollover_client env_past_zero) =
     fst (getTimeMs near_rollover_client
       (env_past_zero\<lparr>ticks := lastUpdateMillis near_rollover_client ## ticks env_past_zero\<rparr>))
     + 10"
    by simp
  from t h have "fst (getTimeMs near_rollover_client env_past_zero) =
      ucast (lastNtpTime near_rollover_client) * 1000 + of_nat 10 +
      scast (timeOffsetSeconds near_rollover_client) * 1000"
    by blast
  then have v: "fst (getTimeMs near_rollover_client env_past_zero) = 1000000000010"
    by (simp add: near_rollover_client_def)
  from t h have "fst (getTimeSec near_rollover_client env_past_zero) =
      ucast ((ucast (lastNtpTime near_rollover_client) * 1000 + of_nat 10 +
              scast (timeOffsetSeconds near_rollover_client) * 1000 :: u64) div 1000)"
    by blast
  then have w: "fst (getTimeSec near_rollover_client env_past_zero) = 1000000000"
    by (simp add: near_rollover_client_def)
  from t0 z have r0: "fst (getTimeMs synced_at_tick0 env_tick0_after) = 0"
    "fst (getTimeSec synced_at_tick0 env_tick0_after) = 0"
    by blast+
  from h k u a' v w z r0 show ?thesis by blast
qed

text \<open>
  Counterexample to C6 as stated: the pair of readings (reference tick 0, current tick
  5000). The exchange succeeds at reading 0; the unsigned difference of the two
  readings is 5000, yet get-time at reading 5000 is what it is at the reference reading:
  no elapsed time enters the result.
\<close>

theorem getTimeMs_no_elapsed_at_reference_tick0:
  "ntpExchange True (TinyNTPClient 6000) env_tick0 0 =
     Some (True, synced_at_tick0, env_tick0_after) \<and>
   lastUpdateMillis synced_at_tick0 = 0 \<and>
   shd (ticks env_tick0_after) - lastUpdateMillis synced_at_tick0 = 5000 \<and>
   fst (getTimeMs synced_at_tick0 env_tick0_after) =
     fst (getTimeMs synced_at_tick0
       (env_tick0_after\<lparr>ticks := lastUpdateMillis synced_at_tick0 ## ticks env_tick0_after\<rparr>))"
  by (simp add: exchange_at_tick0 getTimeMs_def synced_at_tick0_def env_tick0_after_def)

text \<open>
  Claim C7 (timeout of an exchange without reply), evaluated where the source departs
  from it: the request is sent at counter reading 4294961296 with the default timeout
  6000, so the deadline \<^verbatim>\<open>millis() + _timeoutMs\<close> wraps around to 0. The first
  poll finds no datagram, the next reading 4294961297 is greater than 0, and the
  exchange returns failure 1 ms after the request, not after about 6000 ms: the
  counter has been read twice when it returns. The client is unchanged. With the request sent one millisecond earlier the deadline is
  4294967295 and no reading is greater, so the exchange never returns
  (\<open>ntpExchange_never_returns\<close>). In general the exchange fails at the first reading
  greater than the wrapped deadline (\<open>ntpExchange_times_out\<close>).
\<close>

theorem ntpExchange_timeout_wraps:
  "ntpExchange True (TinyNTPClient 6000 :: 32 word client) env_rollover 0 =
     Some (False, TinyNTPClient 6000, env_rollover_after)"
  unfolding ntpExchange_unfold
  by (simp add: env_rollover_def env_rollover_after_def millis_def send_request_def udp_write_def
      udp_begin_def TinyNTPClient_def wait_response.simps udp_parsePacket_def)

text \<open>
  Claim C8 (short and garbage replies). If the declared size of the datagram is below
  48, the exchange fails and the client is unchanged. If the transport hands out chunks
  \<open>cs\<close> of fewer than 48 bytes in total and then reports no more data (none available,
  or a read that returns nothing), the exchange fails and the client is unchanged. If
  the declared size is at least 48 and the transport hands out chunks \<open>cs\<close> of exactly
  48 bytes in total, in any number of reads, the exchange succeeds whatever the bytes
  are, and the anchor is decoded from the chunks in the order they were read: the
  seconds fields are the bytes 24 to 27, 32 to 35 and 40 to 43, most significant first
  on either host byte order, in bootstrap mode and in offset mode. The last clause
  ties this to the exchange: once the polling loop has returned a datagram, the result
  of \<open>ntpExchange\<close> is the result of \<open>read_response\<close>.
\<close>

theorem read_response_accepts_48_bytes:
  fixes c :: "'l::len word client"
  shows
    "(packetSize < 48 \<longrightarrow>
        \<not> fst (read_response le c e packetSize tx) \<and>
        fst (snd (read_response le c e packetSize tx)) = c) \<and>
     (delivers e cs \<and> length (concat cs) < 48 \<and>
      (avails e !! length cs = 0 \<or> chunks e !! length cs = None \<or>
       chunks e !! length cs = Some []) \<longrightarrow>
        \<not> fst (read_response le c e packetSize tx) \<and>
        fst (snd (read_response le c e packetSize tx)) = c) \<and>
     (48 \<le> packetSize \<and> delivers e cs \<and> length (concat cs) = 48 \<longrightarrow>
        read_response le c e packetSize tx =
          (True,
           c\<lparr>lastNtpTime :=
               (if tx = 0 then be32 (concat cs) 40 - 2208988800
                else ucast (ucast (be32 (concat cs) 40) - 2208988800 +
                       long_div
                         (ucast (be32 (concat cs) 32 - be32 (concat cs) 24) +
                          ucast (be32 (concat cs) 40 -
                            (fst (getTimeSec c (after_reads (snd (millis e)) (length cs))) +
                             2208988800)))
                         (2 :: 'l word))),
             lastUpdateMillis := shd (ticks e)\<rparr>,
           if tx = 0 then after_reads (snd (millis e)) (length cs)
           else snd (getTimeSec c (after_reads (snd (millis e)) (length cs))))) \<and>
     (ntpExchange le c e0 tx = Some (ok, c', e') \<and>
      wait_response (snd (millis (send_request le e0 tx))) (shd (ticks e0) + timeoutMs c) =
        Some (Some packetSize, e) \<longrightarrow>
        (ok, c', e') = read_response le c e packetSize tx)"
proof (intro conjI impI)
  assume "packetSize < 48"
  then show "\<not> fst (read_response le c e packetSize tx)"
    and "fst (snd (read_response le c e packetSize tx)) = c"
    by (simp_all add: read_response_def sizeof_NTPPacket_def case_prod_beta)
next
  assume a: "delivers e cs \<and> length (concat cs) < 48 \<and>
      (avails e !! length cs = 0 \<or> chunks e !! length cs = None \<or>
       chunks e !! length cs = Some [])"
  then have d: "delivers (snd (millis e)) cs" by (simp add: delivers_millis)
  have s: "avails (snd (millis e)) = avails e" "chunks (snd (millis e)) = chunks e"
    by (simp_all add: millis_def)
  from a have "fst (read_loop (snd (millis e)) (packet_bytes le NTPPacket_zero) 0) =
      length (concat cs)"
    by (intro read_loop_incomplete[OF d]) (simp_all add: s zero_buffer)
  with a have n: "\<not> sizeof_NTPPacket \<le>
      fst (read_loop (snd (millis e)) (packet_bytes le NTPPacket_zero) 0)"
    by (simp add: sizeof_NTPPacket_def)
  then show f: "\<not> fst (read_response le c e packetSize tx)"
    by (simp add: read_response_ok_iff)
  obtain ok c1 e1 where r: "read_response le c e packetSize tx = (ok, c1, e1)"
    by (cases "read_response le c e packetSize tx")
  with f have "read_response le c e packetSize tx = (False, c1, e1)" by simp
  from read_response_failure[OF this] r
  show "fst (snd (read_response le c e packetSize tx)) = c" by simp
next
  assume a: "48 \<le> packetSize \<and> delivers e cs \<and> length (concat cs) = 48"
  then have d: "delivers (snd (millis e)) cs" by (simp add: delivers_millis)
  from a have "read_loop (snd (millis e)) (packet_bytes le NTPPacket_zero) 0 =
      (48, concat cs, after_reads (snd (millis e)) (length cs))"
    by (intro read_loop_complete[OF d]) (simp_all add: zero_buffer)
  from read_response_result[OF this, of packetSize c tx] a
  show "read_response le c e packetSize tx =
          (True,
           c\<lparr>lastNtpTime :=
               (if tx = 0 then be32 (concat cs) 40 - 2208988800
                else ucast (ucast (be32 (concat cs) 40) - 2208988800 +
                       long_div
                         (ucast (be32 (concat cs) 32 - be32 (concat cs) 24) +
                          ucast (be32 (concat cs) 40 -
                            (fst (getTimeSec c (after_reads (snd (millis e)) (length cs))) +
                             2208988800)))
                         (2 :: 'l word))),
             lastUpdateMillis := shd (ticks e)\<rparr>,
           if tx = 0 then after_reads (snd (millis e)) (length cs)
           else snd (getTimeSec c (after_reads (snd (millis e)) (length cs))))"
    by simp
next
  assume a: "ntpExchange le c e0 tx = Some (ok, c', e') \<and>
      wait_response (snd (millis (send_request le e0 tx))) (shd (ticks e0) + timeoutMs c) =
        Some (Some packetSize, e)"
  then have x: "ntpExchange le c e0 tx = Some (ok, c', e')"
    and w: "wait_response (snd (millis (send_request le e0 tx))) (shd (ticks e0) + timeoutMs c) =
        Some (Some packetSize, e)"
    by simp_all
  from x have "Some (read_response le c e packetSize tx) = Some (ok, c', e')"
    unfolding ntpExchange_unfold w by simp
  then show "(ok, c', e') = read_response le c e packetSize tx" by simp
qed

text \<open>
  Witness for C8: a reply delivered as 20 bytes and then 28 bytes is accepted and
  decoded, in bootstrap mode (reference second 1000000011) and in offset mode (reference
  second 1000000021); a declared size of 47 fails; 20 bytes followed by "no more
  data" fail; a reply of 48 bytes \<open>0xFF\<close> is accepted and decoded (reference second
  2085978495).
\<close>

theorem read_response_accepts_48_bytes_witness:
  "(delivers env_split [take 20 split_reply, drop 20 split_reply] \<and>
    length (concat [take 20 split_reply, drop 20 split_reply]) = 48) \<and>
   fst (read_response True (TinyNTPClient 6000 :: 32 word client) env_split 48 0) \<and>
   lastNtpTime (fst (snd (read_response True (TinyNTPClient 6000 :: 32 word client)
     env_split 48 0))) = 1000000011 \<and>
   fst (read_response True (synced_client :: 32 word client) env_split 48 3208988801) \<and>
   lastNtpTime (fst (snd (read_response True (synced_client :: 32 word client)
     env_split 48 3208988801))) = 1000000021 \<and>
   \<not> fst (read_response True (TinyNTPClient 6000 :: 32 word client) env_split 47 0) \<and>
   (delivers env_partial [replicate 20 255] \<and>
    avails env_partial !! length [replicate 20 255 :: u8 list] = 0) \<and>
   \<not> fst (read_response True (TinyNTPClient 6000 :: 32 word client) env_partial 48 0) \<and>
   (delivers env_garbage [garbage_reply] \<and> length (concat [garbage_reply]) = 48) \<and>
   fst (read_response True (TinyNTPClient 6000 :: 32 word client) env_garbage 48 0) \<and>
   lastNtpTime (fst (snd (read_response True (TinyNTPClient 6000 :: 32 word client)
     env_garbage 48 0))) = 2085978495"
proof -
  let ?c = "TinyNTPClient 6000 :: 32 word client"
  let ?s = "synced_client :: 32 word client"
  let ?cs = "[take 20 split_reply, drop 20 split_reply]"
  note h = split_reply_chunks(1,2)
  note t0 = read_response_accepts_48_bytes[where c = ?c and le = True and e = env_split
      and packetSize = 48 and tx = 0 and cs = ?cs]
  note t1 = read_response_accepts_48_bytes[where c = ?s and le = True and e = env_split
      and packetSize = 48 and tx = 3208988801 and cs = ?cs]
  note t2 = read_response_accepts_48_bytes[where c = ?c and le = True and e = env_split
      and packetSize = 47 and tx = 0]
  note t3 = read_response_accepts_48_bytes[where c = ?c and le = True and e = env_partial
      and packetSize = 48 and tx = 0 and cs = "[replicate 20 255]"]
  note t4 = read_response_accepts_48_bytes[where c = ?c and le = True and e = env_garbage
      and packetSize = 48 and tx = 0 and cs = "[garbage_reply]"]
  have g: "fst (getTimeSec ?s (after_reads (snd (millis env_split)) (length ?cs))) = 1000000001"
    by (simp add: getTimeSec_def getTimeMs_def synced_client_def env_split_def millis_def
        after_reads_def Let_def)
  from t0 h have r0: "read_response True ?c env_split 48 0 =
      (True, ?c\<lparr>lastNtpTime := be32 (concat ?cs) 40 - 2208988800,
         lastUpdateMillis := shd (ticks env_split)\<rparr>,
       after_reads (snd (millis env_split)) (length ?cs))"
    by simp
  have v0: "fst (read_response True ?c env_split 48 0)"
    "lastNtpTime (fst (snd (read_response True ?c env_split 48 0))) = 1000000011"
    unfolding r0 split_reply_chunks(3)
    by (simp_all add: split_reply_def be32_reply_with)
  from t1 h have r1: "read_response True ?s env_split 48 3208988801 =
      (True,
       ?s\<lparr>lastNtpTime :=
           ucast (ucast (be32 (concat ?cs) 40) - 2208988800 +
             long_div
               (ucast (be32 (concat ?cs) 32 - be32 (concat ?cs) 24) +
                ucast (be32 (concat ?cs) 40 -
                  (fst (getTimeSec ?s (after_reads (snd (millis env_split)) (length ?cs))) +
                   2208988800)))
               (2 :: 32 word)),
         lastUpdateMillis := shd (ticks env_split)\<rparr>,
       snd (getTimeSec ?s (after_reads (snd (millis env_split)) (length ?cs))))"
    by simp
  have v1: "fst (read_response True ?s env_split 48 3208988801)"
    "lastNtpTime (fst (snd (read_response True ?s env_split 48 3208988801))) = 1000000021"
    unfolding r1 g split_reply_chunks(3)
    by (simp_all add: split_reply_def be32_reply_with long_div_def signed_divide_int_def)
  from t2 have v2: "\<not> fst (read_response True ?c env_split 47 0)" by simp
  from t3 partial_chunks have v3: "\<not> fst (read_response True ?c env_partial 48 0)" by blast
  from t4 garbage_chunks(1,2) have r4: "read_response True ?c env_garbage 48 0 =
      (True, ?c\<lparr>lastNtpTime := be32 (concat [garbage_reply]) 40 - 2208988800,
         lastUpdateMillis := shd (ticks env_garbage)\<rparr>,
       after_reads (snd (millis env_garbage)) (length [garbage_reply]))"
    by simp
  have v4: "fst (read_response True ?c env_garbage 48 0)"
    "lastNtpTime (fst (snd (read_response True ?c env_garbage 48 0))) = 2085978495"
    unfolding r4 garbage_chunks(3) by simp_all
  from h v0 v1 v2 partial_chunks(1,3) v3 garbage_chunks(1,2) v4 show ?thesis by blast
qed

text \<open>
  Claim C9, as amended (the validity indicator). The indicator is true exactly when the
  stored reference tick is non-zero. It is false for a new client and after \<open>endClient\<close>;
  a failed exchange leaves it as it was; after a successful exchange it is true exactly
  when the counter reading taken on arrival of the datagram was non-zero.
\<close>

theorem operator_bool_after_exchange:
  fixes c c0 :: "'l::len word client"
  shows
    "\<not> operator_bool (TinyNTPClient t :: 'l word client) \<and>
     \<not> operator_bool (fst (endClient c0 e0)) \<and>
     (ntpExchange le c e tx = Some (False, c', e') \<longrightarrow> operator_bool c' = operator_bool c) \<and>
     (ntpExchange le c e tx = Some (True, c', e') \<longrightarrow>
        (\<exists>packetSize e3.
           wait_response (snd (millis (send_request le e tx)))
             (shd (ticks e) + timeoutMs c) = Some (Some packetSize, e3) \<and>
           (operator_bool c' \<longleftrightarrow> shd (ticks e3) \<noteq> 0)))"
proof (intro conjI impI)
  show "\<not> operator_bool (TinyNTPClient t :: 'l word client)"
    by (simp add: operator_bool_def TinyNTPClient_def)
  show "\<not> operator_bool (fst (endClient c0 e0))"
    by (simp add: operator_bool_def endClient_def)
next
  assume "ntpExchange le c e tx = Some (False, c', e')"
  then have "c' = c" by (rule ntpExchange_failure)
  then show "operator_bool c' = operator_bool c" by simp
next
  assume "ntpExchange le c e tx = Some (True, c', e')"
  then show "\<exists>packetSize e3.
           wait_response (snd (millis (send_request le e tx)))
             (shd (ticks e) + timeoutMs c) = Some (Some packetSize, e3) \<and>
           (operator_bool c' \<longleftrightarrow> shd (ticks e3) \<noteq> 0)"
  proof (cases rule: ntpExchange_cases)
    case (timeout e3)
    then show ?thesis by simp
  next
    case (reply packetSize e3)
    from read_response_success[OF reply(2)] have "lastUpdateMillis c' = shd (ticks e3)" by simp
    with reply(1) show ?thesis by (auto simp add: operator_bool_def)
  qed
qed

text \<open>
  Witness for C9: a failed exchange, and a successful one at counter reading 1001.
\<close>

theorem operator_bool_after_exchange_witness:
  "ntpExchange True (synced_client :: 32 word client) env_short 3208988801 =
     Some (False, synced_client, env_short_after) \<and>
   ntpExchange True (synced_client :: 32 word client) env_ahead 3208988800 =
     Some (True, resynced_client, env_ahead_after) \<and>
   operator_bool resynced_client \<and>
   (\<exists>packetSize e3.
      wait_response (snd (millis (send_request True env_ahead 3208988800)))
        (shd (ticks env_ahead) + timeoutMs (synced_client :: 32 word client)) =
        Some (Some packetSize, e3) \<and>
      (operator_bool resynced_client \<longleftrightarrow> shd (ticks e3) \<noteq> 0))"
proof -
  note t = operator_bool_after_exchange[where c = "synced_client :: 32 word client"
      and le = True and e = env_ahead and tx = 3208988800 and c' = resynced_client
      and e' = env_ahead_after]
  have b: "operator_bool resynced_client"
    by (simp add: operator_bool_def resynced_client_def)
  from t exchange_ahead_long32 have "\<exists>packetSize e3.
      wait_response (snd (millis (send_request True env_ahead 3208988800)))
        (shd (ticks env_ahead) + timeoutMs (synced_client :: 32 word client)) =
        Some (Some packetSize, e3) \<and>
      (operator_bool resynced_client \<longleftrightarrow> shd (ticks e3) \<noteq> 0)"
    by blast
  with short_datagram_fails exchange_ahead_long32 b show ?thesis by blast
qed

text \<open>
  Counterexample to C9 as stated: the bootstrap exchange succeeds while the counter
  reads 0, and the client reports that it has not synchronised.
\<close>

theorem sync_at_tick0_reports_unsynced:
  "ntpExchange True (TinyNTPClient 6000) env_tick0 0 =
     Some (True, synced_at_tick0, env_tick0_after) \<and>
   \<not> operator_bool synced_at_tick0"
  by (simp add: exchange_at_tick0 operator_bool_def synced_at_tick0_def)

text \<open>
  Claim C10 (reset). \<open>endClient\<close> sets the configured offset to 0 together with the
  anchor, so an offset set before is discarded and get-time returns 0 afterwards;
  \<open>beginClient\<close> starts with \<open>endClient\<close>, so its result does not depend on an offset
  set before.
\<close>

theorem end_resets_offset:
  fixes c :: "'l::len word client"
  shows "timeOffsetSeconds (fst (endClient c e)) = 0 \<and>
         lastNtpTime (fst (endClient c e)) = 0 \<and>
         lastUpdateMillis (fst (endClient c e)) = 0 \<and>
         fst (endClient (setTimeOffsetSeconds c offset) e) = fst (endClient c e) \<and>
         fst (endClient (setTimeOffsetHours c hours) e) = fst (endClient c e) \<and>
         getTimeMs (fst (endClient c e)) e2 = (0, e2) \<and>
         beginClient le c e = update le (fst (endClient c e)) (snd (endClient c e)) \<and>
         beginClient le (setTimeOffsetSeconds c offset) e = beginClient le c e \<and>
         beginClient le (setTimeOffsetHours c hours) e = beginClient le c e"
  by (simp add: endClient_def setTimeOffsetSeconds_def setTimeOffsetHours_def getTimeMs_def
      beginClient_def)
end
